theory Spec2Isabelle
  imports Complex_Main "HOL-Library.Word" "HOL-Library.Log_Nat"
begin

unbundle bit_operations_syntax

section \<open>The GL texture resource of Imagine (GLTexture.cc)\<close>

text \<open>
  The embedding follows \<^verbatim>\<open>src/unnamed/part_004\<close>, the OpenGL texture unit of the Imagine
  graphics layer. A C++ \<^verbatim>\<open>int\<close> is an \<^typ>\<open>int\<close>; the unsigned cast in front of \<^verbatim>\<open>fls\<close>
  and the \<^verbatim>\<open>int8_t\<close> level field are written out with 32-bit and 8-bit words. Addresses
  (\<^verbatim>\<open>uintptr_t\<close>), GL object names (\<^verbatim>\<open>GLuint\<close>) and the pixmap pitch (\<^verbatim>\<open>uint32_t\<close>) are
  \<^typ>\<open>nat\<close>, with 0 as the null pointer and as "no texture name".
  \<^verbatim>\<open>assert\<close> and \<^verbatim>\<open>assumeExpr\<close> are modelled as they behave in a checked build: a failed
  check ends the operation with \<open>AssertFailed\<close>; \<^verbatim>\<open>bug_unreachable\<close> ends it with
  \<open>Unreachable\<close>. A check that fails inside a command stops that command on the render
  thread: the command then records the fault and the device calls made before it.
  Log output is not part of the model.
\<close>

subsection \<open>Data model\<close>

datatype fault = AssertFailed | Unreachable

text \<open>
  The pixel formats the source names; \<open>PIXEL_NONE\<close> stands for every other value of the
  enum, which the \<^verbatim>\<open>default\<close> branches of the translation functions receive.
\<close>

datatype PixelFormatID =
  PIXEL_NONE | PIXEL_RGBA8888 | PIXEL_BGRA8888 | PIXEL_RGB888 | PIXEL_RGB565
  | PIXEL_RGBA5551 | PIXEL_RGBA4444 | PIXEL_I8 | PIXEL_IA88 | PIXEL_A8

text \<open>
  The pixel format table is declared outside the sources at hand, so a format carries its
  bytes per pixel with it.
\<close>

record PixelFormat =
  formatID :: PixelFormatID
  bytesPerPixel :: int

record PixmapDesc =
  desc_w :: int
  desc_h :: int
  desc_format :: PixelFormat

text \<open>A view on pixel memory: descriptor, address of the first pixel, row pitch in bytes.\<close>

record PixmapView =
  pix_desc :: PixmapDesc
  pix_data :: nat
  pix_pitchBytes :: nat

record WindowRect =
  rect_x :: int
  rect_y :: int
  rect_x2 :: int
  rect_y2 :: int

datatype TextureType = T2D_1 | T2D_2 | T2D_4 | T2D_EXTERNAL

datatype GLtarget = GL_TEXTURE_2D | GL_TEXTURE_EXTERNAL_OES

datatype GLpname = GL_UNPACK_ALIGNMENT | GL_UNPACK_ROW_LENGTH

text \<open>The format, internal format and data type enums the texture code passes to the device.\<close>

datatype GLenum =
  GL_UNSIGNED_BYTE | GL_UNSIGNED_INT_8_8_8_8_REV | GL_UNSIGNED_SHORT_5_6_5
  | GL_UNSIGNED_SHORT_5_5_5_1 | GL_UNSIGNED_SHORT_4_4_4_4
  | GL_RGB | GL_RGBA | GL_BGRA
  | GL_SRGB8_ALPHA8 | GL_RGBA8 | GL_RGB565 | GL_RGB5 | GL_RGB5_A1 | GL_RGBA4
  | GL_LUMINANCE | GL_LUMINANCE_ALPHA | GL_ALPHA | GL_RED | GL_RG
  | GL_LUMINANCE8 | GL_LUMINANCE8_ALPHA8 | GL_ALPHA8 | GL_R8 | GL_RG8

record SamplerParams =
  magFilter :: nat
  otherParams :: nat

record TextureSizeSupport =
  nonPow2CanMipmap :: bool

text \<open>What \<^verbatim>\<open>r.support\<close> says about pixel formats: the enums it picks at start-up.\<close>

record FormatSupport =
  hasBGRPixels :: bool
  luminanceFormat :: GLenum
  luminanceAlphaFormat :: GLenum
  alphaFormat :: GLenum
  luminanceInternalFormat :: GLenum
  luminanceAlphaInternalFormat :: GLenum
  alphaInternalFormat :: GLenum

text \<open>
  The capability flags of the renderer that the texture code reads, together with the
  compile-time switches of \<^verbatim>\<open>Config::Gfx\<close> and the flag bits of \<^verbatim>\<open>Texture\<close>, whose values
  are declared in headers outside the sources at hand and are therefore parameters.
\<close>

record Renderer =
  hasImmutableTexStorage :: bool
  hasUnpackRowLength :: bool
  hasPBOFuncs :: bool
  hasSamplerObjects :: bool
  hasTextureSwizzle :: bool
  useFixedFunctionPipeline :: bool
  textureSizeSupport :: TextureSizeSupport
  formatSupport :: FormatSupport
  OPENGL_ES :: bool
  envIsIOS :: bool
  OPENGL_TEXTURE_TARGET_EXTERNAL :: bool
  OPENGL_SHADER_PIPELINE :: bool
  WRITE_FLAG_ASYNC :: "32 word"
  WRITE_FLAG_MAKE_MIPMAPS :: "32 word"
  BUFFER_FLAG_CLEARED :: "32 word"

text \<open>The fields of \<^verbatim>\<open>GLTexture\<close>; \<open>texName\<close> and \<open>levels\<close> are \<^verbatim>\<open>texName_\<close> and \<^verbatim>\<open>levels_\<close>.\<close>

record GLTexture =
  texName :: nat
  levels :: int
  pixDesc :: PixmapDesc
  type :: TextureType

text \<open>
  The device calls a command makes on the render thread, with the arguments that matter:
  \<open>TexStorage2D levels internalFormat w h\<close>, \<open>TexImage2D level internalFormat w h format dataType\<close>,
  \<open>TexSubImage2D level x y w h format dataType pixels\<close>. \<open>MakeGLTextureName old new\<close> is
  \<^verbatim>\<open>makeGLTextureName(old)\<close> returning the fresh name \<open>new\<close>; \<open>FreeBuffer p\<close> is \<^verbatim>\<open>std::free(p)\<close>.
\<close>

datatype GLCall =
  MakeGLTextureName nat nat
  | NotifySemaphore
  | BindTexture GLtarget nat
  | TexStorage2D int GLenum int int
  | TexImage2D int GLenum int int GLenum GLenum
  | SetSwizzleForFormat PixelFormat nat
  | SetTexParams SamplerParams
  | PixelStorei GLpname int
  | BindBuffer nat
  | FlushMappedBufferRange nat int
  | TexSubImage2D int int int int int GLenum GLenum nat
  | FreeBuffer nat
  | GenerateMipmap

text \<open>
  A command handed to \<^verbatim>\<open>task().run\<close>: the device calls it makes, in order, the fault it
  stops on if a check inside it fails (the calls are then those made before the fault), and
  whether the caller waits.
\<close>

record Command =
  calls :: "GLCall list"
  stopped :: "fault option"
  awaitReply :: bool

record LockedTextureBuffer =
  bufferOffset :: nat
  pix :: PixmapView
  srcDirtyRect :: WindowRect
  lockedLevel :: int
  shouldFreeBuffer :: bool
  pbo :: nat

text \<open>
  What an operation can change: the texture object, the queue of the render task
  (oldest command first) and host memory, byte by byte; \<open>None\<close> is an indeterminate byte
  (fresh from \<^verbatim>\<open>malloc\<close>).
\<close>

record World =
  tex :: GLTexture
  queue :: "Command list"
  mem :: "nat \<Rightarrow> 8 word option"

subsection \<open>Unpack alignment\<close>

definition makeUnpackAlignment :: "nat \<Rightarrow> int" where
  "makeUnpackAlignment addr = [8, 1, 2, 1, 4, 1, 2, 1] ! (addr AND 7)"

definition unpackAlignForAddrAndPitch :: "nat \<Rightarrow> nat \<Rightarrow> int" where
  "unpackAlignForAddrAndPitch srcAddr pitch =
     (let alignmentForAddr = makeUnpackAlignment srcAddr;
          alignmentForPitch = makeUnpackAlignment pitch
      in min alignmentForPitch alignmentForAddr)"

definition bestAlignment :: "PixmapView \<Rightarrow> int" where
  "bestAlignment p = unpackAlignForAddrAndPitch (pix_data p) (pix_pitchBytes p)"

text \<open>The conversion of an \<^verbatim>\<open>int\<close> to \<^verbatim>\<open>uintptr_t\<close> or \<^verbatim>\<open>size_t\<close> (64 bits).\<close>

definition to_uintptr :: "int \<Rightarrow> nat" where
  "to_uintptr i = nat (i mod 2 ^ 64)"

text \<open>
  The value of an arithmetic result once it is a C++ \<^verbatim>\<open>int\<close>: 32 bits, two's complement,
  wrapping around.
\<close>

definition to_int32 :: "int \<Rightarrow> int" where
  "to_int32 i = sint (word_of_int i :: 32 word)"

subsection \<open>Pixel format translation\<close>

text \<open>
  \<^verbatim>\<open>makeGLDataType\<close>, \<^verbatim>\<open>makeGLFormat\<close> and the internal format functions. A format the
  switch does not list ends in \<^verbatim>\<open>bug_unreachable\<close>; \<^verbatim>\<open>PIXEL_BGRA8888\<close> asserts that the
  backend has BGR pixels.
\<close>

definition makeGLDataType :: "Renderer \<Rightarrow> PixelFormatID \<Rightarrow> fault + GLenum" where
  "makeGLDataType r f =
     (case f of
        PIXEL_RGBA8888 \<Rightarrow>
          (if \<not> OPENGL_ES r then Inr GL_UNSIGNED_INT_8_8_8_8_REV else Inr GL_UNSIGNED_BYTE)
      | PIXEL_BGRA8888 \<Rightarrow>
          (if \<not> OPENGL_ES r then Inr GL_UNSIGNED_INT_8_8_8_8_REV else Inr GL_UNSIGNED_BYTE)
      | PIXEL_RGB888 \<Rightarrow> Inr GL_UNSIGNED_BYTE
      | PIXEL_I8 \<Rightarrow> Inr GL_UNSIGNED_BYTE
      | PIXEL_IA88 \<Rightarrow> Inr GL_UNSIGNED_BYTE
      | PIXEL_A8 \<Rightarrow> Inr GL_UNSIGNED_BYTE
      | PIXEL_RGB565 \<Rightarrow> Inr GL_UNSIGNED_SHORT_5_6_5
      | PIXEL_RGBA5551 \<Rightarrow> Inr GL_UNSIGNED_SHORT_5_5_5_1
      | PIXEL_RGBA4444 \<Rightarrow> Inr GL_UNSIGNED_SHORT_4_4_4_4
      | PIXEL_NONE \<Rightarrow> Inl Unreachable)"

definition makeGLFormat :: "Renderer \<Rightarrow> PixelFormatID \<Rightarrow> fault + GLenum" where
  "makeGLFormat r f =
     (case f of
        PIXEL_I8 \<Rightarrow> Inr (luminanceFormat (formatSupport r))
      | PIXEL_IA88 \<Rightarrow> Inr (luminanceAlphaFormat (formatSupport r))
      | PIXEL_A8 \<Rightarrow> Inr (alphaFormat (formatSupport r))
      | PIXEL_RGB888 \<Rightarrow> Inr GL_RGB
      | PIXEL_RGB565 \<Rightarrow> Inr GL_RGB
      | PIXEL_RGBA8888 \<Rightarrow> Inr GL_RGBA
      | PIXEL_RGBA5551 \<Rightarrow> Inr GL_RGBA
      | PIXEL_RGBA4444 \<Rightarrow> Inr GL_RGBA
      | PIXEL_BGRA8888 \<Rightarrow>
          (if \<not> hasBGRPixels (formatSupport r) then Inl AssertFailed else Inr GL_BGRA)
      | PIXEL_NONE \<Rightarrow> Inl Unreachable)"

definition makeGLESInternalFormat :: "Renderer \<Rightarrow> PixelFormatID \<Rightarrow> fault + GLenum" where
  "makeGLESInternalFormat r f =
     (if envIsIOS r \<and> f = PIXEL_BGRA8888 then Inr GL_RGBA else makeGLFormat r f)"

definition makeGLSizedInternalFormat :: "Renderer \<Rightarrow> PixelFormatID \<Rightarrow> bool \<Rightarrow> fault + GLenum" where
  "makeGLSizedInternalFormat r f isSrgb =
     (case f of
        PIXEL_BGRA8888 \<Rightarrow> Inr (if isSrgb then GL_SRGB8_ALPHA8 else GL_RGBA8)
      | PIXEL_RGBA8888 \<Rightarrow> Inr (if isSrgb then GL_SRGB8_ALPHA8 else GL_RGBA8)
      | PIXEL_RGB565 \<Rightarrow> Inr (if OPENGL_ES r then GL_RGB565 else GL_RGB5)
      | PIXEL_RGBA5551 \<Rightarrow> Inr GL_RGB5_A1
      | PIXEL_RGBA4444 \<Rightarrow> Inr GL_RGBA4
      | PIXEL_I8 \<Rightarrow> Inr (luminanceInternalFormat (formatSupport r))
      | PIXEL_IA88 \<Rightarrow> Inr (luminanceAlphaInternalFormat (formatSupport r))
      | PIXEL_A8 \<Rightarrow> Inr (alphaInternalFormat (formatSupport r))
      | PIXEL_RGB888 \<Rightarrow> Inl Unreachable
      | PIXEL_NONE \<Rightarrow> Inl Unreachable)"

definition makeGLInternalFormat :: "Renderer \<Rightarrow> PixelFormatID \<Rightarrow> bool \<Rightarrow> fault + GLenum" where
  "makeGLInternalFormat r f isSrgb =
     (if OPENGL_ES r then makeGLESInternalFormat r f else makeGLSizedInternalFormat r f isSrgb)"

subsection \<open>Building a command\<close>

text \<open>
  The body of a command as it runs: the device calls made so far and the fault that stopped
  it, if any. \<open>andThen\<close> runs a second part after a first one that did not stop;
  \<open>translated\<close> continues with the enum of a format translation, or stops on its fault.
\<close>

type_synonym body = "GLCall list \<times> fault option"

definition emit :: "GLCall list \<Rightarrow> body" where
  "emit cs = (cs, None)"

definition andThen :: "body \<Rightarrow> body \<Rightarrow> body" where
  "andThen b c = (case snd b of None \<Rightarrow> (fst b @ fst c, snd c) | Some e \<Rightarrow> b)"

definition translated :: "fault + GLenum \<Rightarrow> (GLenum \<Rightarrow> body) \<Rightarrow> body" where
  "translated x k = (case x of Inl e \<Rightarrow> ([], Some e) | Inr v \<Rightarrow> k v)"

definition checked :: "bool \<Rightarrow> body" where
  "checked ok = (if ok then ([], None) else ([], Some AssertFailed))"

subsection \<open>Helpers declared outside the sources\<close>

text \<open>
  Modelled from the spec: \<^verbatim>\<open>fls\<close> ("find last set", imagine/util) is not among the sources.
  The level count it stands for is \<open>floor(log2(x)) + 1\<close>: the 1-based position of the
  highest set bit of an unsigned value, 0 for 0, computed here by counting the halvings
  that take the value to 0.
\<close>

fun fls_nat :: "nat \<Rightarrow> nat" where
  "fls_nat n = (if n = 0 then 0 else Suc (fls_nat (n div 2)))"

declare fls_nat.simps [simp del]

definition fls :: "32 word \<Rightarrow> int" where
  "fls x = int (fls_nat (unat x))"

text \<open>
  Modelled from the spec: \<^verbatim>\<open>IG::isPowerOf2\<close> is not among the sources. A dimension is a power
  of two when it is positive and halving it, while it is even, ends at 1.
\<close>

fun isPowerOf2_nat :: "nat \<Rightarrow> bool" where
  "isPowerOf2_nat n = (if n \<le> 1 then n = 1 else even n \<and> isPowerOf2_nat (n div 2))"

declare isPowerOf2_nat.simps [simp del]

definition isPowerOf2 :: "int \<Rightarrow> bool" where
  "isPowerOf2 x = (0 < x \<and> isPowerOf2_nat (nat x))"

text \<open>
  Modelled from the spec: the accessors of \<^verbatim>\<open>PixmapView\<close> and \<^verbatim>\<open>WindowRect\<close> are declared
  outside the sources. A pixmap has no inter-row padding when its stride equals width times
  bytes per pixel; the byte extent of \<open>n\<close> pixels is \<open>n\<close> times bytes per pixel.
\<close>

definition pix_w :: "PixmapView \<Rightarrow> int" where
  "pix_w p = desc_w (pix_desc p)"

definition pix_h :: "PixmapView \<Rightarrow> int" where
  "pix_h p = desc_h (pix_desc p)"

definition pix_format :: "PixmapView \<Rightarrow> PixelFormat" where
  "pix_format p = desc_format (pix_desc p)"

definition isPadded :: "PixmapView \<Rightarrow> bool" where
  "isPadded p = (int (pix_pitchBytes p) \<noteq> pix_w p * bytesPerPixel (pix_format p))"

definition pitchPixels :: "PixmapView \<Rightarrow> int" where
  "pitchPixels p = int (pix_pitchBytes p) div bytesPerPixel (pix_format p)"

definition pix_bytes :: "PixmapView \<Rightarrow> int" where
  "pix_bytes p = int (pix_pitchBytes p) * pix_h p"

definition pixelBytes :: "PixelFormat \<Rightarrow> int \<Rightarrow> int" where
  "pixelBytes f pixels = pixels * bytesPerPixel f"

definition xSize :: "WindowRect \<Rightarrow> int" where
  "xSize rect = rect_x2 rect - rect_x rect"

definition ySize :: "WindowRect \<Rightarrow> int" where
  "ySize rect = rect_y2 rect - rect_y rect"

text \<open>
  Modelled from the spec: \<^verbatim>\<open>MutablePixmapView::write\<close> is not among the sources. It copies
  the caller's pixels into the destination view row by row, leaving out the padding between
  the source rows: byte \<open>col\<close> of row \<open>row\<close> of the destination becomes that of the source.
\<close>

definition pixmapWrite :: "PixmapView \<Rightarrow> PixmapView \<Rightarrow> (nat \<Rightarrow> 8 word option) \<Rightarrow> (nat \<Rightarrow> 8 word option)" where
  "pixmapWrite dst src m = (\<lambda>a.
     let lineBytes = nat (pix_w src * bytesPerPixel (pix_format src));
         off = a - pix_data dst;
         row = off div pix_pitchBytes dst;
         col = off mod pix_pitchBytes dst
     in if pix_data dst \<le> a \<and> 0 < pix_pitchBytes dst \<and> int row < pix_h src \<and> col < lineBytes
        then m (pix_data src + row * pix_pitchBytes src + col)
        else m a)"

text \<open>
  Modelled from the spec: the conversion of a \<^verbatim>\<open>LockedTextureBuffer\<close> to \<^verbatim>\<open>bool\<close> is that of
  its pixmap, whose conversion is declared outside the sources: a view is true when it has
  data. The empty buffer is the value-initialised one that \<^verbatim>\<open>return {}\<close> builds.
\<close>

definition LockedTextureBuffer_bool :: "LockedTextureBuffer \<Rightarrow> bool" where
  "LockedTextureBuffer_bool lockBuff = (pix_data (pix lockBuff) \<noteq> 0)"

definition emptyLockedTextureBuffer :: LockedTextureBuffer where
  "emptyLockedTextureBuffer =
     \<lparr>bufferOffset = 0,
      pix = \<lparr>pix_desc = \<lparr>desc_w = 0, desc_h = 0,
                desc_format = \<lparr>formatID = PIXEL_NONE, bytesPerPixel = 0\<rparr>\<rparr>,
             pix_data = 0, pix_pitchBytes = 0\<rparr>,
      srcDirtyRect = \<lparr>rect_x = 0, rect_y = 0, rect_x2 = 0, rect_y2 = 0\<rparr>,
      lockedLevel = 0, shouldFreeBuffer = False, pbo = 0\<rparr>"

subsection \<open>Mipmap eligibility and level bookkeeping\<close>

definition supportsMipmaps :: "TextureSizeSupport \<Rightarrow> int \<Rightarrow> int \<Rightarrow> bool" where
  "supportsMipmaps ss imageX imageY =
     (imageX \<noteq> 0 \<and> imageY \<noteq> 0 \<and>
      (nonPow2CanMipmap ss \<or> (isPowerOf2 imageX \<and> isPowerOf2 imageY)))"

definition canUseMipmaps :: "Renderer \<Rightarrow> GLTexture \<Rightarrow> bool" where
  "canUseMipmaps r t =
     supportsMipmaps (textureSizeSupport r) (desc_w (pixDesc t)) (desc_h (pixDesc t))"

text \<open>The value an \<^verbatim>\<open>int\<close> has once stored in an \<^verbatim>\<open>int8_t\<close>.\<close>

definition to_int8 :: "int \<Rightarrow> int" where
  "to_int8 i = sint (word_of_int i :: 8 word)"

definition typeForPixelFormat :: "PixelFormatID \<Rightarrow> TextureType" where
  "typeForPixelFormat f =
     (if f = PIXEL_A8 then T2D_1 else if f = PIXEL_IA88 then T2D_2 else T2D_4)"

definition updateFormatInfo :: "Renderer \<Rightarrow> PixmapDesc \<Rightarrow> int \<Rightarrow> GLtarget \<Rightarrow> GLTexture \<Rightarrow> fault + GLTexture" where
  "updateFormatInfo r desc lv target t =
     (if to_int8 lv = 0 then Inl AssertFailed
      else Inr (t\<lparr>levels := to_int8 lv, pixDesc := desc,
                  type := (if OPENGL_SHADER_PIPELINE r
                           then (if OPENGL_TEXTURE_TARGET_EXTERNAL r \<and> target = GL_TEXTURE_EXTERNAL_OES
                                 then T2D_EXTERNAL
                                 else typeForPixelFormat (formatID (desc_format desc)))
                           else type t)\<rparr>))"

definition updateLevelsForMipmapGeneration :: "Renderer \<Rightarrow> GLTexture \<Rightarrow> GLTexture" where
  "updateLevelsForMipmapGeneration r t =
     (if \<not> hasImmutableTexStorage r
      then t\<lparr>levels := to_int8 (fls (word_of_int (desc_w (pixDesc t) OR desc_h (pixDesc t))))\<rparr>
      else t)"

subsection \<open>Level sizes\<close>

text \<open>
  The loop of \<^verbatim>\<open>Texture::size\<close> and of the per-level allocation; \<^verbatim>\<open>iotaCount(n)\<close> runs
  \<open>n\<close> times and not at all for a negative \<open>n\<close>. C++ division truncates towards zero and
  \<open>div\<close> rounds down, but under \<open>max 1\<close> the two agree: both give 1 for a negative value.
\<close>

text \<open>\<^verbatim>\<open>Texture::size\<close> is \<open>size_level\<close> below.\<close>

fun sizeLoop :: "nat \<Rightarrow> int \<times> int \<Rightarrow> int \<times> int" where
  "sizeLoop 0 wh = wh"
| "sizeLoop (Suc n) (w, h) = sizeLoop n (max 1 (w div 2), max 1 (h div 2))"

definition size_level :: "GLTexture \<Rightarrow> int \<Rightarrow> fault + (int \<times> int)" where
  "size_level t level =
     (if levels t = 0 then Inl AssertFailed
      else Inr (sizeLoop (nat level) (desc_w (pixDesc t), desc_h (pixDesc t))))"

subsection \<open>Formatting\<close>

text \<open>
  The swizzle and sampler parameter calls stay symbolic. \<^verbatim>\<open>verifyCurrentTexture2D\<close> compares
  the device's binding with the name the command has just bound and is left out.
\<close>

definition setSwizzleForFormatInGL :: "Renderer \<Rightarrow> PixelFormat \<Rightarrow> nat \<Rightarrow> GLCall list" where
  "setSwizzleForFormatInGL r f name =
     (if useFixedFunctionPipeline r \<or> \<not> hasTextureSwizzle r then []
      else [SetSwizzleForFormat f name])"

definition setSamplerParamsInGL :: "Renderer \<Rightarrow> SamplerParams \<Rightarrow> GLCall list" where
  "setSamplerParamsInGL r params =
     (if hasSamplerObjects r \<or> magFilter params = 0 then [] else [SetTexParams params])"

text \<open>The level count \<^verbatim>\<open>setFormat\<close> settles on before it touches the device.\<close>

definition setFormat_levels :: "Renderer \<Rightarrow> PixmapDesc \<Rightarrow> int \<Rightarrow> int" where
  "setFormat_levels r desc lv =
     (if supportsMipmaps (textureSizeSupport r) (desc_w desc) (desc_h desc)
      then (if lv = 0 then fls (word_of_int (desc_w desc OR desc_h desc)) else lv)
      else 1)"

text \<open>The \<^verbatim>\<open>glTexImage2D\<close> loop of the mutable branch: \<open>n\<close> levels left, starting at level \<open>i\<close>.\<close>

fun texImage2DLoop :: "GLenum \<Rightarrow> GLenum \<Rightarrow> GLenum \<Rightarrow> nat \<Rightarrow> int \<Rightarrow> int \<times> int \<Rightarrow> GLCall list" where
  "texImage2DLoop internalFormat format dataType 0 i wh = []"
| "texImage2DLoop internalFormat format dataType (Suc n) i (w, h) =
     TexImage2D i internalFormat w h format dataType
     # texImage2DLoop internalFormat format dataType n (i + 1) (max 1 (w div 2), max 1 (h div 2))"

text \<open>
  \<^verbatim>\<open>Texture::setFormat\<close>. \<open>newName\<close> is the name the device hands out if the command makes
  one; \<open>isSrgb\<close> is the outcome of \<^verbatim>\<open>supportedColorSpace(desc.format(), colorSpace) == SRGB\<close>,
  a renderer query outside the sources. The caller waits until the new name is published,
  so the texture holds it when \<^verbatim>\<open>setFormat\<close> returns.
\<close>

definition setFormat :: "Renderer \<Rightarrow> nat \<Rightarrow> PixmapDesc \<Rightarrow> int \<Rightarrow> bool \<Rightarrow> SamplerParams option \<Rightarrow> World \<Rightarrow> fault + World" where
  "setFormat r newName desc lvArg isSrgb compatSampler s =
     (if desc_w desc = 0 \<or> desc_h desc = 0 then Inl AssertFailed
      else
        let lv = setFormat_levels r desc lvArg;
            samplerParams = (case compatSampler of Some p \<Rightarrow> p
                             | None \<Rightarrow> \<lparr>magFilter = 0, otherParams = 0\<rparr>);
            t = tex s;
            f = formatID (desc_format desc)
        in if hasImmutableTexStorage r then
             let b = andThen
                       (emit [MakeGLTextureName (texName t) newName, NotifySemaphore,
                              BindTexture GL_TEXTURE_2D newName])
                       (translated (makeGLSizedInternalFormat r f isSrgb) (\<lambda>internalFormat.
                          emit ([TexStorage2D lv internalFormat (desc_w desc) (desc_h desc)]
                                @ setSwizzleForFormatInGL r (desc_format desc) newName
                                @ setSamplerParamsInGL r samplerParams)));
                 cmd = \<lparr>calls = fst b, stopped = snd b, awaitReply = True\<rparr>
             in (case updateFormatInfo r desc lv GL_TEXTURE_2D (t\<lparr>texName := newName\<rparr>) of
                   Inl e \<Rightarrow> Inl e
                 | Inr t' \<Rightarrow> Inr (s\<lparr>tex := t', queue := queue s @ [cmd]\<rparr>))
           else
             let remakeTexName = (lv \<noteq> levels t);
                 name = (if remakeTexName then newName else texName t);
                 b = andThen
                       (emit ((if remakeTexName
                               then [MakeGLTextureName (texName t) newName, NotifySemaphore]
                               else [])
                              @ [BindTexture GL_TEXTURE_2D name]))
                       (translated (makeGLFormat r f) (\<lambda>format.
                        translated (makeGLDataType r f) (\<lambda>dataType.
                        translated (makeGLInternalFormat r f False) (\<lambda>internalFormat.
                          emit (texImage2DLoop internalFormat format dataType (nat lv) 0
                                  (desc_w desc, desc_h desc)
                                @ setSwizzleForFormatInGL r (desc_format desc) name
                                @ (if remakeTexName then setSamplerParamsInGL r samplerParams
                                   else []))))));
                 cmd = \<lparr>calls = fst b, stopped = snd b, awaitReply = remakeTexName\<rparr>
             in (case updateFormatInfo r desc lv GL_TEXTURE_2D (t\<lparr>texName := name\<rparr>) of
                   Inl e \<Rightarrow> Inl e
                 | Inr t' \<Rightarrow> Inr (s\<lparr>tex := t', queue := queue s @ [cmd]\<rparr>)))"

subsection \<open>Mipmap generation and binding\<close>

definition generateMipmaps :: "Renderer \<Rightarrow> World \<Rightarrow> bool \<times> World" where
  "generateMipmaps r s =
     (if texName (tex s) = 0 then (False, s)
      else if \<not> canUseMipmaps r (tex s) then (False, s)
      else (True,
            s\<lparr>queue := queue s @
                 [\<lparr>calls = [BindTexture GL_TEXTURE_2D (texName (tex s)), GenerateMipmap],
                   stopped = None, awaitReply = False\<rparr>],
              tex := updateLevelsForMipmapGeneration r (tex s)\<rparr>))"

definition target :: "Renderer \<Rightarrow> GLTexture \<Rightarrow> GLtarget" where
  "target r t =
     (if OPENGL_TEXTURE_TARGET_EXTERNAL r \<and> type t = T2D_EXTERNAL
      then GL_TEXTURE_EXTERNAL_OES else GL_TEXTURE_2D)"

text \<open>
  \<^verbatim>\<open>GLTexture::bindTex\<close>; the draw command stream \<^verbatim>\<open>RendererCommands\<close> is the list of the
  bindings recorded in it.
\<close>

definition bindTex :: "Renderer \<Rightarrow> GLTexture \<Rightarrow> GLCall list \<Rightarrow> GLCall list" where
  "bindTex r t cmds =
     (if texName t = 0 then cmds else cmds @ [BindTexture (target r t) (texName t)])"

subsection \<open>Locked buffers\<close>

definition fillBytes :: "(nat \<Rightarrow> 8 word option) \<Rightarrow> nat \<Rightarrow> nat \<Rightarrow> 8 word option \<Rightarrow> (nat \<Rightarrow> 8 word option)" where
  "fillBytes m a n v = (\<lambda>i. if a \<le> i \<and> i < a + n then v else m i)"

text \<open>
  \<^verbatim>\<open>Texture::lock(level, rect, bufferFlags)\<close>. \<open>alloc n\<close> is what the host allocator
  (\<^verbatim>\<open>calloc\<close> or \<^verbatim>\<open>malloc\<close>) returns when asked for \<open>n\<close> bytes, 0 when it fails. The pixel
  count \<^verbatim>\<open>rect.xSize() * rect.ySize()\<close> is a product of two \<^verbatim>\<open>int\<close>s and wraps around as one.
\<close>

definition lock :: "Renderer \<Rightarrow> (nat \<Rightarrow> nat) \<Rightarrow> int \<Rightarrow> WindowRect \<Rightarrow> 32 word \<Rightarrow> World \<Rightarrow> fault + (LockedTextureBuffer \<times> World)" where
  "lock r alloc level rect bufferFlags s =
     (if texName (tex s) = 0 then Inr (emptyLockedTextureBuffer, s)
      else case size_level (tex s) level of
        Inl f \<Rightarrow> Inl f
      | Inr (sx, sy) \<Rightarrow>
          if \<not> rect_x2 rect \<le> sx then Inl AssertFailed
          else if \<not> rect_y2 rect \<le> sy then Inl AssertFailed
          else
            let f = desc_format (pixDesc (tex s));
                bufferBytes = to_uintptr (pixelBytes f (to_int32 (xSize rect * ySize rect)));
                cleared = (bufferFlags AND BUFFER_FLAG_CLEARED r \<noteq> 0);
                data = alloc bufferBytes
            in if data = 0 then Inr (emptyLockedTextureBuffer, s)
               else Inr
                 (\<lparr>bufferOffset = data,
                   pix = \<lparr>pix_desc = \<lparr>desc_w = xSize rect, desc_h = ySize rect, desc_format = f\<rparr>,
                          pix_data = data,
                          pix_pitchBytes = nat (xSize rect * bytesPerPixel f)\<rparr>,
                   srcDirtyRect = rect, lockedLevel = level, shouldFreeBuffer = True, pbo = 0\<rparr>,
                  s\<lparr>mem := fillBytes (mem s) data bufferBytes
                              (if cleared then Some 0 else None)\<rparr>))"

text \<open>
  \<^verbatim>\<open>Texture::unlock\<close>. The command's calls are fixed when it is submitted, since the
  closure captures the buffer by value.
\<close>

definition unlock :: "Renderer \<Rightarrow> LockedTextureBuffer \<Rightarrow> 32 word \<Rightarrow> World \<Rightarrow> fault + World" where
  "unlock r lockBuff writeFlags s =
     (if \<not> LockedTextureBuffer_bool lockBuff then Inr s
      else if pbo lockBuff \<noteq> 0 \<and> \<not> hasPBOFuncs r then Inl AssertFailed
      else
        let makeMipmaps = (writeFlags AND WRITE_FLAG_MAKE_MIPMAPS r \<noteq> 0 \<and> canUseMipmaps r (tex s));
            t' = (if makeMipmaps then updateLevelsForMipmapGeneration r (tex s) else tex s);
            p = pix lockBuff;
            b = andThen
                  (emit [BindTexture GL_TEXTURE_2D (texName (tex s)),
                         PixelStorei GL_UNPACK_ALIGNMENT
                           (unpackAlignForAddrAndPitch 0 (pix_pitchBytes p))])
                 (andThen
                  (if pbo lockBuff \<noteq> 0
                   then andThen (checked (hasUnpackRowLength r))
                          (emit [PixelStorei GL_UNPACK_ROW_LENGTH 0, BindBuffer (pbo lockBuff),
                                 FlushMappedBufferRange (bufferOffset lockBuff) (pix_bytes p)])
                   else emit (if hasUnpackRowLength r then [PixelStorei GL_UNPACK_ROW_LENGTH 0]
                              else []))
                  (translated (makeGLFormat r (formatID (pix_format p))) (\<lambda>format.
                   translated (makeGLDataType r (formatID (pix_format p))) (\<lambda>dataType.
                     emit ([TexSubImage2D (lockedLevel lockBuff)
                              (rect_x (srcDirtyRect lockBuff)) (rect_y (srcDirtyRect lockBuff))
                              (pix_w p) (pix_h p) format dataType (bufferOffset lockBuff)]
                           @ (if pbo lockBuff \<noteq> 0 then [BindBuffer 0]
                              else if shouldFreeBuffer lockBuff then [FreeBuffer (pix_data p)]
                              else [])
                           @ (if makeMipmaps then [GenerateMipmap] else []))))));
            cmd = \<lparr>calls = fst b, stopped = snd b, awaitReply = False\<rparr>
        in Inr (s\<lparr>tex := t', queue := queue s @ [cmd]\<rparr>))"

subsection \<open>Writing a pixmap\<close>

text \<open>The command of the direct path: one upload that reads the caller's buffer in place.\<close>

definition directWriteCommand :: "Renderer \<Rightarrow> nat \<Rightarrow> int \<Rightarrow> PixmapView \<Rightarrow> int \<times> int \<Rightarrow> int \<Rightarrow> bool \<Rightarrow> 32 word \<Rightarrow> Command" where
  "directWriteCommand r name level pixmap destPos assumeAlign makeMipmaps writeFlags =
     (let b = andThen
                (emit ([BindTexture GL_TEXTURE_2D name, PixelStorei GL_UNPACK_ALIGNMENT assumeAlign]
                       @ (if hasUnpackRowLength r
                          then [PixelStorei GL_UNPACK_ROW_LENGTH (pitchPixels pixmap)] else [])))
                (translated (makeGLFormat r (formatID (pix_format pixmap))) (\<lambda>format.
                 translated (makeGLDataType r (formatID (pix_format pixmap))) (\<lambda>dataType.
                   emit ([TexSubImage2D level (fst destPos) (snd destPos)
                            (pix_w pixmap) (pix_h pixmap) format dataType (pix_data pixmap)]
                         @ (if makeMipmaps then [GenerateMipmap] else [])))))
      in \<lparr>calls = fst b, stopped = snd b,
          awaitReply = (\<not> (writeFlags AND WRITE_FLAG_ASYNC r \<noteq> 0))\<rparr>)"

text \<open>
  The staged path of \<^verbatim>\<open>writeAligned\<close>: lock the destination rectangle, copy the pixmap into
  the buffer, unlock.
\<close>

definition stagedWrite :: "Renderer \<Rightarrow> (nat \<Rightarrow> nat) \<Rightarrow> int \<Rightarrow> PixmapView \<Rightarrow> int \<times> int \<Rightarrow> 32 word \<Rightarrow> World \<Rightarrow> fault + World" where
  "stagedWrite r alloc level pixmap destPos writeFlags s =
     (let lockRect = \<lparr>rect_x = 0 + fst destPos, rect_y = 0 + snd destPos,
                      rect_x2 = pix_w pixmap + fst destPos, rect_y2 = pix_h pixmap + snd destPos\<rparr>
      in case lock r alloc level lockRect 0 s of
           Inl f \<Rightarrow> Inl f
         | Inr (lockBuff, s1) \<Rightarrow>
             if \<not> LockedTextureBuffer_bool lockBuff then Inr s1
             else if bytesPerPixel (pix_format pixmap) \<noteq> bytesPerPixel (pix_format (pix lockBuff))
             then Inl AssertFailed
             else unlock r lockBuff writeFlags
                    (s1\<lparr>mem := pixmapWrite (pix lockBuff) pixmap (mem s1)\<rparr>))"

definition writeAligned :: "Renderer \<Rightarrow> (nat \<Rightarrow> nat) \<Rightarrow> int \<Rightarrow> PixmapView \<Rightarrow> int \<times> int \<Rightarrow> int \<Rightarrow> 32 word \<Rightarrow> World \<Rightarrow> fault + World" where
  "writeAligned r alloc level pixmap destPos assumeAlignArg writeFlags s =
     (if texName (tex s) = 0 then Inr s
      else case size_level (tex s) level of
        Inl f \<Rightarrow> Inl f
      | Inr (sx, sy) \<Rightarrow>
          if \<not> fst destPos + pix_w pixmap \<le> sx then Inl AssertFailed
          else if \<not> snd destPos + pix_h pixmap \<le> sy then Inl AssertFailed
          else if bytesPerPixel (pix_format pixmap) \<noteq> bytesPerPixel (desc_format (pixDesc (tex s)))
          then Inl AssertFailed
          else
            let assumeAlign = (if assumeAlignArg = 0
                               then unpackAlignForAddrAndPitch (pix_data pixmap) (pix_pitchBytes pixmap)
                               else assumeAlignArg)
            in if pix_data pixmap mod to_uintptr assumeAlign \<noteq> 0 then Inl Unreachable
               else
                 let makeMipmaps = (writeFlags AND WRITE_FLAG_MAKE_MIPMAPS r \<noteq> 0
                                    \<and> canUseMipmaps r (tex s))
                 in if hasUnpackRowLength r \<or> \<not> isPadded pixmap
                    then Inr (s\<lparr>queue := queue s @
                                  [directWriteCommand r (texName (tex s)) level pixmap destPos
                                     assumeAlign makeMipmaps writeFlags],
                                tex := (if makeMipmaps
                                        then updateLevelsForMipmapGeneration r (tex s)
                                        else tex s)\<rparr>)
                    else stagedWrite r alloc level pixmap destPos writeFlags s)"

text \<open>\<^verbatim>\<open>Texture::write\<close>.\<close>

definition texture_write :: "Renderer \<Rightarrow> (nat \<Rightarrow> nat) \<Rightarrow> int \<Rightarrow> PixmapView \<Rightarrow> int \<times> int \<Rightarrow> 32 word \<Rightarrow> World \<Rightarrow> fault + World" where
  "texture_write r alloc level pixmap destPos commitFlags s =
     writeAligned r alloc level pixmap destPos (bestAlignment pixmap) commitFlags s"

subsection \<open>Sample inputs\<close>

text \<open>
  An OpenGL ES renderer without immutable storage, without custom unpack row length and BGR
  pixels, able to mipmap any size; the flag bits are distinct single bits.
\<close>

definition sampleRenderer :: Renderer where
  "sampleRenderer =
     \<lparr>hasImmutableTexStorage = False, hasUnpackRowLength = False, hasPBOFuncs = False,
      hasSamplerObjects = False, hasTextureSwizzle = False, useFixedFunctionPipeline = False,
      textureSizeSupport = \<lparr>nonPow2CanMipmap = True\<rparr>,
      formatSupport = \<lparr>hasBGRPixels = False, luminanceFormat = GL_LUMINANCE,
                        luminanceAlphaFormat = GL_LUMINANCE_ALPHA, alphaFormat = GL_ALPHA,
                        luminanceInternalFormat = GL_LUMINANCE8,
                        luminanceAlphaInternalFormat = GL_LUMINANCE8_ALPHA8,
                        alphaInternalFormat = GL_ALPHA8\<rparr>,
      OPENGL_ES = True, envIsIOS = False,
      OPENGL_TEXTURE_TARGET_EXTERNAL = False, OPENGL_SHADER_PIPELINE = True,
      WRITE_FLAG_ASYNC = 1, WRITE_FLAG_MAKE_MIPMAPS = 2, BUFFER_FLAG_CLEARED = 1\<rparr>"

definition rgba8888 :: PixelFormat where
  "rgba8888 = \<lparr>formatID = PIXEL_RGBA8888, bytesPerPixel = 4\<rparr>"

definition desc100x50 :: PixmapDesc where
  "desc100x50 = \<lparr>desc_w = 100, desc_h = 50, desc_format = rgba8888\<rparr>"

definition desc100x60 :: PixmapDesc where
  "desc100x60 = \<lparr>desc_w = 100, desc_h = 60, desc_format = rgba8888\<rparr>"

text \<open>A texture that was never formatted, an empty queue, memory all indeterminate.\<close>

definition unformattedWorld :: World where
  "unformattedWorld =
     \<lparr>tex = \<lparr>texName = 0, levels = 0,
             pixDesc = \<lparr>desc_w = 0, desc_h = 0,
                        desc_format = \<lparr>formatID = PIXEL_NONE, bytesPerPixel = 0\<rparr>\<rparr>,
             type = T2D_4\<rparr>,
      queue = [], mem = (\<lambda>a. None)\<rparr>"

text \<open>A formatted texture with the given name, level count and descriptor.\<close>

definition formattedWorld :: "nat \<Rightarrow> int \<Rightarrow> PixmapDesc \<Rightarrow> World" where
  "formattedWorld name lv desc =
     \<lparr>tex = \<lparr>texName = name, levels = lv, pixDesc = desc, type = T2D_4\<rparr>,
      queue = [], mem = (\<lambda>a. None)\<rparr>"

text \<open>The same renderer with immutable texture storage.\<close>

definition immutableRenderer :: Renderer where
  "immutableRenderer = sampleRenderer\<lparr>hasImmutableTexStorage := True\<rparr>"

text \<open>The same renderer unable to mipmap sizes that are not powers of two.\<close>

definition pow2OnlyRenderer :: Renderer where
  "pow2OnlyRenderer = sampleRenderer\<lparr>textureSizeSupport := \<lparr>nonPow2CanMipmap = False\<rparr>\<rparr>"

definition sampleRect :: WindowRect where
  "sampleRect = \<lparr>rect_x = 0, rect_y = 0, rect_x2 = 4, rect_y2 = 2\<rparr>"

text \<open>A 4 by 2 pixmap at address 4096 whose rows are 24 bytes apart (8 bytes of padding).\<close>

definition paddedPixmap :: PixmapView where
  "paddedPixmap =
     \<lparr>pix_desc = \<lparr>desc_w = 4, desc_h = 2, desc_format = rgba8888\<rparr>,
      pix_data = 4096, pix_pitchBytes = 24\<rparr>"

subsection \<open>Reading a command\<close>

text \<open>The per-level allocation calls and the making of a texture name among device calls.\<close>

fun isTexImage2D :: "GLCall \<Rightarrow> bool" where
  "isTexImage2D (TexImage2D i internalFormat w h format dataType) = True"
| "isTexImage2D _ = False"

fun isMakeGLTextureName :: "GLCall \<Rightarrow> bool" where
  "isMakeGLTextureName (MakeGLTextureName old new) = True"
| "isMakeGLTextureName _ = False"


text \<open>The same renderer for desktop OpenGL.\<close>

definition desktopRenderer :: Renderer where
  "desktopRenderer = sampleRenderer\<lparr>OPENGL_ES := False\<rparr>"

definition rgb888 :: PixelFormat where
  "rgb888 = \<lparr>formatID = PIXEL_RGB888, bytesPerPixel = 3\<rparr>"


definition desc100x50rgb :: PixmapDesc where
  "desc100x50rgb = \<lparr>desc_w = 100, desc_h = 50, desc_format = rgb888\<rparr>"



text \<open>
  A 65536 by 65536 texture and the rectangle covering it: the pixel count is \<open>2^32\<close>, the
  byte extent \<open>2^34\<close>. The allocator answers a request for 0 bytes with a block at 4096 and
  fails every other request.
\<close>

definition hugeDesc :: PixmapDesc where
  "hugeDesc = \<lparr>desc_w = 65536, desc_h = 65536, desc_format = rgba8888\<rparr>"

definition hugeRect :: WindowRect where
  "hugeRect = \<lparr>rect_x = 0, rect_y = 0, rect_x2 = 65536, rect_y2 = 65536\<rparr>"

definition allocOnlyEmpty :: "nat \<Rightarrow> nat" where
  "allocOnlyEmpty n = (if n = 0 then 4096 else 0)"

definition hugeBuffer :: LockedTextureBuffer where
  "hugeBuffer =
     \<lparr>bufferOffset = 4096,
      pix = \<lparr>pix_desc = hugeDesc, pix_data = 4096, pix_pitchBytes = 262144\<rparr>,
      srcDirtyRect = hugeRect, lockedLevel = 0, shouldFreeBuffer = True, pbo = 0\<rparr>"

section \<open>Properties\<close>

subsection \<open>Alignment\<close>

lemma and7_mod8: "(a::nat) AND 7 = a mod 8"
  using take_bit_eq_mod[of 3 a] take_bit_eq_mask[of 3 a]
  by (simp add: mask_eq_exp_minus_1)

lemma makeUnpackAlignment_cases:
  "makeUnpackAlignment a \<in> {1, 2, 4, 8} \<and> makeUnpackAlignment a dvd int a
   \<and> makeUnpackAlignment a = (if 8 dvd a then 8 else if 4 dvd a then 4 else if 2 dvd a then 2 else 1)"
proof -
  have "a mod 8 < 8" by simp
  then consider "a mod 8 = 0" | "a mod 8 = 1" | "a mod 8 = 2" | "a mod 8 = 3"
    | "a mod 8 = 4" | "a mod 8 = 5" | "a mod 8 = 6" | "a mod 8 = 7"
    by linarith
  then show ?thesis
    by cases (simp_all add: makeUnpackAlignment_def and7_mod8, presburger+)
qed

lemma min_pow2_dvd:
  fixes a b :: int
  assumes "a \<in> {1, 2, 4, 8}" "b \<in> {1, 2, 4, 8}"
  shows "min a b \<in> {1, 2, 4, 8} \<and> min a b dvd a \<and> min a b dvd b"
  using assms by auto

lemma unpackAlign_props:
  "unpackAlignForAddrAndPitch a p \<in> {1, 2, 4, 8}
   \<and> unpackAlignForAddrAndPitch a p dvd int a
   \<and> unpackAlignForAddrAndPitch a p dvd int p"
proof -
  let ?x = "makeUnpackAlignment p" and ?y = "makeUnpackAlignment a"
  have m: "min ?x ?y \<in> {1, 2, 4, 8}" "min ?x ?y dvd ?x" "min ?x ?y dvd ?y"
    using min_pow2_dvd[of ?x ?y] makeUnpackAlignment_cases[of a] makeUnpackAlignment_cases[of p]
    by blast+
  have "min ?x ?y dvd int a" "min ?x ?y dvd int p"
    using m(2,3) makeUnpackAlignment_cases[of a] makeUnpackAlignment_cases[of p] dvd_trans
    by blast+
  then show ?thesis using m(1) by (simp add: unpackAlignForAddrAndPitch_def Let_def)
qed

lemma to_uintptr_small: "0 \<le> i \<Longrightarrow> i < 2 ^ 64 \<Longrightarrow> to_uintptr i = nat i"
  by (simp add: to_uintptr_def)

lemma aligned_mod: 
  assumes "al \<in> {1, 2, 4, 8}" "al dvd int a"
  shows "a mod to_uintptr al = 0"
proof -
  consider "al = 1" | "al = 2" | "al = 4" | "al = 8" using assms(1) by blast
  then show ?thesis
  proof cases
    case 1 then show ?thesis by (simp add: to_uintptr_def)
  next
    case 2 then show ?thesis using assms(2) by (simp add: to_uintptr_def) 
  next
    case 3 
    then have "to_uintptr al = 4" by (simp add: to_uintptr_def)
    moreover have "4 dvd a" using assms(2) 3 by presburger
    ultimately show ?thesis by simp
  next
    case 4
    then have "to_uintptr al = 8" by (simp add: to_uintptr_def)
    moreover have "8 dvd a" using assms(2) 4 by presburger
    ultimately show ?thesis by simp
  qed
qed

lemma size_level_fault: "size_level t l = Inl f \<Longrightarrow> f = AssertFailed"
  by (auto simp: size_level_def split: if_splits)

lemma lock_fault: "lock r alloc level rect fl s = Inl f \<Longrightarrow> f = AssertFailed"
  by (auto simp: lock_def Let_def dest: size_level_fault split: if_splits sum.splits prod.splits)

lemma unlock_fault: "unlock r lb fl s = Inl f \<Longrightarrow> f = AssertFailed"
  by (auto simp: unlock_def Let_def split: if_splits)

lemma stagedWrite_fault: "stagedWrite r alloc level p d fl s = Inl f \<Longrightarrow> f = AssertFailed"
  by (auto simp: stagedWrite_def Let_def dest: lock_fault unlock_fault split: if_splits sum.splits prod.splits)

lemma writeAligned_unreachable:
  assumes "writeAligned r alloc level p d al fl s = Inl Unreachable"
  shows "pix_data p mod to_uintptr (if al = 0 then unpackAlignForAddrAndPitch (pix_data p) (pix_pitchBytes p) else al) \<noteq> 0"
proof (rule ccontr)
  assume "\<not> ?thesis"
  then have ok: "pix_data p mod to_uintptr (if al = 0 then unpackAlignForAddrAndPitch (pix_data p) (pix_pitchBytes p) else al) = 0"
    by simp
  show False
  proof (cases "texName (tex s) = 0")
    case True
    then show False using assms by (simp add: writeAligned_def)
  next
    case False
    show False
    proof (cases "size_level (tex s) level")
      case (Inl f)
      then show False using assms False size_level_fault[OF Inl] by (simp add: writeAligned_def)
    next
      case (Inr wh)
      obtain sx sy where wh: "wh = (sx, sy)" by (cases wh)
      show False
      proof (cases "hasUnpackRowLength r \<or> \<not> isPadded p")
        case True
        then show False using assms False Inr wh ok
          by (simp add: writeAligned_def Let_def split: if_splits)
      next
        case f2: False
        have "stagedWrite r alloc level p d fl s = Inl Unreachable"
          using assms False Inr wh ok f2
          by (simp add: writeAligned_def Let_def split: if_splits)
        then show False using stagedWrite_fault by blast
      qed
    qed
  qed
qed

text \<open>
  Claim C9. \<^verbatim>\<open>bestAlignment\<close> returns 1, 2, 4 or 8; the value divides both the data address
  and the pitch of the pixmap, being the smaller of the two table values, each the largest
  power of two up to 8 dividing its argument. So the alignment test of \<^verbatim>\<open>writeAligned\<close>
  passes whenever \<^verbatim>\<open>write\<close> supplies the alignment, and \<^verbatim>\<open>write\<close> never takes the
  \<^verbatim>\<open>bug_unreachable\<close> branch of that test.
\<close>

theorem bestAlignment_never_unreachable:
  "bestAlignment p \<in> {1, 2, 4, 8}
   \<and> bestAlignment p dvd int (pix_data p)
   \<and> bestAlignment p dvd int (pix_pitchBytes p)
   \<and> bestAlignment p = min (makeUnpackAlignment (pix_pitchBytes p)) (makeUnpackAlignment (pix_data p))
   \<and> makeUnpackAlignment a = (if 8 dvd a then 8 else if 4 dvd a then 4 else if 2 dvd a then 2 else 1)
   \<and> pix_data p mod to_uintptr (bestAlignment p) = 0
   \<and> texture_write r alloc level p destPos flags s \<noteq> Inl Unreachable"
proof -
  have props: "bestAlignment p \<in> {1, 2, 4, 8}" "bestAlignment p dvd int (pix_data p)"
    "bestAlignment p dvd int (pix_pitchBytes p)"
    using unpackAlign_props[of "pix_data p" "pix_pitchBytes p"] by (simp_all add: bestAlignment_def)
  have al: "pix_data p mod to_uintptr (bestAlignment p) = 0"
    using aligned_mod[OF props(1,2)] .
  have nz: "bestAlignment p \<noteq> 0" using props(1) by auto
  have "texture_write r alloc level p destPos flags s \<noteq> Inl Unreachable"
  proof
    assume "texture_write r alloc level p destPos flags s = Inl Unreachable"
    then have "pix_data p mod to_uintptr (bestAlignment p) \<noteq> 0"
      using writeAligned_unreachable[of r alloc level p destPos "bestAlignment p" flags s] nz
      by (simp add: texture_write_def)
    then show False using al by simp
  qed
  then show ?thesis
    using props al makeUnpackAlignment_cases[of a]
    by (simp add: bestAlignment_def unpackAlignForAddrAndPitch_def Let_def)
qed

subsection \<open>Level sizes\<close>

lemma halve_step:
  fixes w :: int
  assumes "1 \<le> w"
  shows "max 1 (max 1 (w div 2) div 2 ^ n) = max 1 (w div 2 ^ Suc n)"
proof (cases "2 \<le> w")
  case True
  then have "max 1 (w div 2) = w div 2" by simp
  moreover have "(w div 2) div 2 ^ n = w div (2 * 2 ^ n)"
    by (simp add: zdiv_zmult2_eq)
  ultimately show ?thesis by simp
next
  case False
  with assms have w1: "w = 1" by simp
  have "(1::int) div 2 ^ n \<le> 1"
    by (metis div_by_1 one_le_numeral one_le_power zdiv_mono2 zero_le_one zero_less_one)
  moreover have "(1::int) div (2 * 2 ^ n) = 0"
  proof (rule div_pos_pos_trivial)
    have "(1::int) \<le> 2 ^ n" by simp
    then show "(1::int) < 2 * 2 ^ n" by linarith
  qed simp
  ultimately show ?thesis using w1 by (simp add: max_def)
qed

lemma sizeLoop_formula:
  "1 \<le> w \<Longrightarrow> 1 \<le> h \<Longrightarrow>
   sizeLoop n (w, h) = (max 1 (w div 2 ^ n), max 1 (h div 2 ^ n))"
proof (induction n arbitrary: w h)
  case 0
  then show ?case by simp
next
  case (Suc n)
  have "sizeLoop (Suc n) (w, h) = sizeLoop n (max 1 (w div 2), max 1 (h div 2))" by simp
  also have "\<dots> = (max 1 (max 1 (w div 2) div 2 ^ n), max 1 (max 1 (h div 2) div 2 ^ n))"
    by (rule Suc.IH) simp_all
  also have "\<dots> = (max 1 (w div 2 ^ Suc n), max 1 (h div 2 ^ Suc n))"
    using halve_step[OF Suc.prems(1)] halve_step[OF Suc.prems(2)] by simp
  finally show ?case .
qed

lemma halved_mono:
  fixes w :: int
  assumes "0 \<le> w" "a \<le> b"
  shows "max 1 (w div 2 ^ b) \<le> max 1 (w div 2 ^ a)"
proof -
  have "(2::int) ^ a \<le> 2 ^ b" using assms(2) by (simp add: power_increasing)
  then have "w div 2 ^ b \<le> w div 2 ^ a"
    using assms(1) by (intro zdiv_mono2) simp_all
  then show ?thesis by simp
qed

lemma halved_bottom:
  fixes w :: int
  assumes "0 \<le> w" "w < 2 ^ n"
  shows "max 1 (w div 2 ^ n) = 1"
  using assms by (simp add: div_pos_pos_trivial)

text \<open>
  Claim C2. For a formatted texture (level count set, base dimensions at least 1) and a
  level \<open>l \<ge> 0\<close>, \<^verbatim>\<open>size(l)\<close> is \<open>(max 1 (w div 2^l), max 1 (h div 2^l))\<close>, computed from the
  stored descriptor alone. Hence it does not grow with the level, stays at least 1 on each
  axis and is (1, 1) once \<open>2^l\<close> exceeds both dimensions. The witness is the 100 by 50
  texture: \<^verbatim>\<open>size(0)\<close> = (100, 50) and \<^verbatim>\<open>size(6)\<close> = (1, 1).
\<close>

theorem size_level_formula:
  assumes "levels t \<noteq> 0" and "1 \<le> desc_w (pixDesc t)" and "1 \<le> desc_h (pixDesc t)"
    and "0 \<le> level"
  shows "size_level t level =
           Inr (max 1 (desc_w (pixDesc t) div 2 ^ nat level),
                max 1 (desc_h (pixDesc t) div 2 ^ nat level))
         \<and> (\<forall>l2. level \<le> l2 \<longrightarrow>
               (\<exists>x y x2 y2. size_level t level = Inr (x, y) \<and> size_level t l2 = Inr (x2, y2)
                  \<and> 1 \<le> x2 \<and> x2 \<le> x \<and> 1 \<le> y2 \<and> y2 \<le> y))
         \<and> (\<forall>l2. desc_w (pixDesc t) < 2 ^ nat l2 \<and> desc_h (pixDesc t) < 2 ^ nat l2 \<longrightarrow>
               size_level t l2 = Inr (1, 1))"
proof -
  let ?w = "desc_w (pixDesc t)" and ?h = "desc_h (pixDesc t)"
  have eq: "size_level t l = Inr (max 1 (?w div 2 ^ nat l), max 1 (?h div 2 ^ nat l))" for l
    using assms(1) sizeLoop_formula[OF assms(2,3)] by (simp add: size_level_def)
  have mono: "\<exists>x y x2 y2. size_level t level = Inr (x, y) \<and> size_level t l2 = Inr (x2, y2)
                  \<and> 1 \<le> x2 \<and> x2 \<le> x \<and> 1 \<le> y2 \<and> y2 \<le> y" if "level \<le> l2" for l2
  proof -
    have le: "nat level \<le> nat l2" using that by simp
    have "max 1 (?w div 2 ^ nat l2) \<le> max 1 (?w div 2 ^ nat level)"
      "max 1 (?h div 2 ^ nat l2) \<le> max 1 (?h div 2 ^ nat level)"
      using halved_mono[OF _ le] assms(2,3) by simp_all
    then show ?thesis using eq[of level] eq[of l2] by simp
  qed
  have bottom: "size_level t l2 = Inr (1, 1)" if "?w < 2 ^ nat l2 \<and> ?h < 2 ^ nat l2" for l2
    using that eq[of l2] assms(2,3) halved_bottom[of ?w "nat l2"] halved_bottom[of ?h "nat l2"]
    by simp
  show ?thesis using eq[of level] mono bottom by blast
qed

theorem size_level_formula_witness:
  "size_level (tex (formattedWorld 1 7 desc100x50)) 0 = Inr (100, 50)
   \<and> size_level (tex (formattedWorld 1 7 desc100x50)) 6 = Inr (1, 1)"
  using size_level_formula[of "tex (formattedWorld 1 7 desc100x50)" 0]
    size_level_formula[of "tex (formattedWorld 1 7 desc100x50)" 6]
  by (simp add: formattedWorld_def desc100x50_def)

subsection \<open>Level count at formatting time\<close>

lemma fls_nat_floorlog: "fls_nat n = floorlog 2 n"
proof (induction n rule: fls_nat.induct)
  case (1 n)
  show ?case
  proof (cases "n = 0")
    case True
    then show ?thesis by (simp add: fls_nat.simps floorlog_def)
  next
    case False
    then show ?thesis
      using 1 by (subst fls_nat.simps, subst compute_floorlog) simp
  qed
qed

lemma fls_bitlen:
  assumes "0 \<le> m" "m < 2 ^ 32"
  shows "fls (word_of_int m) = bitlen m"
proof -
  have "unat (word_of_int m :: 32 word) = nat m"
    using assms by (simp add: unsigned_of_int take_bit_int_eq_self)
  then show ?thesis by (simp add: fls_def fls_nat_floorlog bitlen_def)
qed

lemma bitlen_or_max:
  fixes w h :: int
  assumes "0 < w" "0 < h"
  shows "bitlen (w OR h) = bitlen (max w h)"
proof (rule antisym)
  let ?k = "bitlen (max w h)"
  have mpos: "0 < max w h" using assms by simp
  have "max w h < 2 ^ nat ?k" using bitlen_bounds[OF mpos] by simp
  then have "w < 2 ^ nat ?k" "h < 2 ^ nat ?k" by simp_all
  then have "w OR h < 2 ^ nat ?k" using assms by (intro OR_upper) simp_all
  then show "bitlen (w OR h) \<le> ?k"
    by (simp add: bitlen_le_iff_power bitlen_nonneg)
next
  have "w \<le> w OR h" "h \<le> w OR h"
    using assms or_greater_eq[of h w] or_greater_eq[of w h] by (simp_all add: or.commute)
  then have "max w h \<le> w OR h" by simp
  then have "nat (max w h) \<le> nat (w OR h)" by (rule nat_mono)
  then have "floorlog 2 (nat (max w h)) \<le> floorlog 2 (nat (w OR h))"
    by (rule floorlog_mono)
  then show "bitlen (max w h) \<le> bitlen (w OR h)"
    by (simp add: bitlen_def)
qed

lemma or_bounds:
  fixes w h :: int
  assumes "0 < w" "w < 2 ^ 31" "0 < h" "h < 2 ^ 31"
  shows "0 < w OR h" "w OR h < 2 ^ 31"
proof -
  have "w \<le> w OR h" using assms or_greater_eq[of h w] by simp
  then show "0 < w OR h" using assms by simp
  show "w OR h < 2 ^ 31" using assms by (intro OR_upper) simp_all
qed

lemma fls_or_log2:
  fixes w h :: int
  assumes "1 \<le> w" "w < 2 ^ 31" "1 \<le> h" "h < 2 ^ 31"
  shows "fls (word_of_int (w OR h)) = \<lfloor>log 2 (real_of_int (max w h))\<rfloor> + 1"
    and "1 \<le> fls (word_of_int (w OR h))" and "fls (word_of_int (w OR h)) \<le> 31"
proof -
  have pos: "0 < w" "0 < h" using assms by simp_all
  have b: "0 < w OR h" "w OR h < 2 ^ 31" using or_bounds[OF pos(1) assms(2) pos(2) assms(4)] .
  have "w OR h < 2 ^ 32" using b(2) by simp
  moreover have "0 \<le> w OR h" using pos by simp
  ultimately have eq: "fls (word_of_int (w OR h)) = bitlen (w OR h)"
    by (intro fls_bitlen)
  have mpos: "0 < max w h" using pos by simp
  have "bitlen (max w h) = \<lfloor>log 2 (real_of_int (max w h))\<rfloor> + 1"
    unfolding bitlen_alt_def using mpos by (simp only: if_True)
  then show "fls (word_of_int (w OR h)) = \<lfloor>log 2 (real_of_int (max w h))\<rfloor> + 1"
    using eq bitlen_or_max[OF pos] by (simp only:)
  show "1 \<le> fls (word_of_int (w OR h))"
    using eq b(1) bitlen_eq_zero_iff[of "w OR h"] bitlen_nonneg[of "w OR h"] by simp
  show "fls (word_of_int (w OR h)) \<le> 31"
    using eq b(2) by (simp add: bitlen_le_iff_power)
qed

lemma to_int8_id: "- 128 \<le> i \<Longrightarrow> i < 128 \<Longrightarrow> to_int8 i = i"
  by (simp add: to_int8_def sint_sbintrunc' signed_take_bit_int_eq_self)

lemma setFormat_stores:
  assumes "desc_w desc \<noteq> 0" "desc_h desc \<noteq> 0"
    and "to_int8 (setFormat_levels r desc lvArg) \<noteq> 0"
  shows "\<exists>s'. setFormat r newName desc lvArg isSrgb compatSampler s = Inr s'
           \<and> levels (tex s') = to_int8 (setFormat_levels r desc lvArg)
           \<and> pixDesc (tex s') = desc"
  using assms by (simp add: setFormat_def updateFormatInfo_def Let_def)


text \<open>
  Claim C1. When width and height are at least 1 (and fit an \<^verbatim>\<open>int\<close>), the backend can mipmap
  these dimensions and the level hint is 0, \<^verbatim>\<open>setFormat\<close> settles on \<open>fls (w OR h)\<close> levels and
  stores that count, which is \<open>floor(log2(max(w, h))) + 1\<close>; for a 100 by 50 descriptor it
  is 7.
\<close>

theorem setFormat_level_count:
  assumes "1 \<le> desc_w desc" and "desc_w desc < 2 ^ 31"
    and "1 \<le> desc_h desc" and "desc_h desc < 2 ^ 31"
    and "supportsMipmaps (textureSizeSupport r) (desc_w desc) (desc_h desc)"
  shows "setFormat_levels r desc 0 = fls (word_of_int (desc_w desc OR desc_h desc))
         \<and> (\<exists>s'. setFormat r newName desc 0 isSrgb compatSampler s = Inr s'
               \<and> levels (tex s') = \<lfloor>log 2 (real_of_int (max (desc_w desc) (desc_h desc)))\<rfloor> + 1
               \<and> (desc_w desc = 100 \<and> desc_h desc = 50 \<longrightarrow> levels (tex s') = 7))"
proof -
  let ?f = "fls (word_of_int (desc_w desc OR desc_h desc))"
  have lv: "setFormat_levels r desc 0 = ?f"
    using assms(5) by (simp add: setFormat_levels_def)
  have f: "?f = \<lfloor>log 2 (real_of_int (max (desc_w desc) (desc_h desc)))\<rfloor> + 1"
    "1 \<le> ?f" "?f \<le> 31"
    using fls_or_log2[OF assms(1-4)] by simp_all
  have id: "to_int8 ?f = ?f" using f(2,3) by (intro to_int8_id) simp_all
  have nz: "to_int8 (setFormat_levels r desc 0) \<noteq> 0" using lv id f(2) by simp
  obtain s' where s': "setFormat r newName desc 0 isSrgb compatSampler s = Inr s'"
    "levels (tex s') = to_int8 (setFormat_levels r desc 0)"
    using setFormat_stores[OF _ _ nz, of newName isSrgb compatSampler s] assms(1,3) by auto
  have l: "levels (tex s') = ?f" using s'(2) lv id by simp
  have l2: "levels (tex s') = \<lfloor>log 2 (real_of_int (max (desc_w desc) (desc_h desc)))\<rfloor> + 1"
    using l f(1) by (simp only:)
  have l7: "desc_w desc = 100 \<and> desc_h desc = 50 \<longrightarrow> levels (tex s') = 7"
  proof
    assume wh: "desc_w desc = 100 \<and> desc_h desc = 50"
    have "(100::int) OR 50 = 118" by simp
    moreover have "fls_nat 118 = 7" by (simp add: fls_nat.simps)
    ultimately show "levels (tex s') = 7" using l wh by (simp add: fls_def)
  qed
  from s'(1) l2 l7 have "\<exists>s'. setFormat r newName desc 0 isSrgb compatSampler s = Inr s'
      \<and> levels (tex s') = \<lfloor>log 2 (real_of_int (max (desc_w desc) (desc_h desc)))\<rfloor> + 1
      \<and> (desc_w desc = 100 \<and> desc_h desc = 50 \<longrightarrow> levels (tex s') = 7)"
    by blast
  with lv show ?thesis by (rule conjI)
qed

theorem setFormat_level_count_witness:
  "\<exists>s'. setFormat sampleRenderer 1 desc100x50 0 False None unformattedWorld = Inr s'
         \<and> levels (tex s') = 7"
  using setFormat_level_count[of desc100x50 sampleRenderer 1 False None unformattedWorld]
  by (auto simp: desc100x50_def sampleRenderer_def supportsMipmaps_def)

subsection \<open>Mipmap generation\<close>

text \<open>
  Claim C4. On a formatted texture whose dimensions fail the mipmap eligibility rule of the
  backend (a dimension is 0, or the backend cannot mipmap sizes that are not powers of two
  and a dimension is not one), \<^verbatim>\<open>generateMipmaps\<close> returns false, enqueues nothing and leaves
  the level count, as the whole state, unchanged. The witness is a 100 by 60 texture on a
  backend without non-power-of-two mipmaps.
\<close>

theorem generateMipmaps_ineligible:
  assumes "texName (tex s) \<noteq> 0" and "\<not> canUseMipmaps r (tex s)"
  shows "generateMipmaps r s = (False, s)
         \<and> queue (snd (generateMipmaps r s)) = queue s
         \<and> levels (tex (snd (generateMipmaps r s))) = levels (tex s)
         \<and> (\<not> canUseMipmaps r (tex s)) =
             (desc_w (pixDesc (tex s)) = 0 \<or> desc_h (pixDesc (tex s)) = 0
              \<or> (\<not> nonPow2CanMipmap (textureSizeSupport r)
                  \<and> (\<not> isPowerOf2 (desc_w (pixDesc (tex s)))
                      \<or> \<not> isPowerOf2 (desc_h (pixDesc (tex s))))))"
proof -
  have "generateMipmaps r s = (False, s)"
    using assms by (simp add: generateMipmaps_def)
  moreover have "(\<not> canUseMipmaps r (tex s)) =
             (desc_w (pixDesc (tex s)) = 0 \<or> desc_h (pixDesc (tex s)) = 0
              \<or> (\<not> nonPow2CanMipmap (textureSizeSupport r)
                  \<and> (\<not> isPowerOf2 (desc_w (pixDesc (tex s)))
                      \<or> \<not> isPowerOf2 (desc_h (pixDesc (tex s))))))"
    by (auto simp: canUseMipmaps_def supportsMipmaps_def)
  ultimately show ?thesis by simp
qed

lemma not_pow2_100: "\<not> isPowerOf2 100"
  by (simp add: isPowerOf2_def isPowerOf2_nat.simps)

theorem generateMipmaps_ineligible_witness:
  "generateMipmaps pow2OnlyRenderer (formattedWorld 1 1 desc100x60)
     = (False, formattedWorld 1 1 desc100x60)"
  using generateMipmaps_ineligible[of "formattedWorld 1 1 desc100x60" pow2OnlyRenderer] not_pow2_100
  by (simp add: formattedWorld_def desc100x60_def pow2OnlyRenderer_def sampleRenderer_def
      canUseMipmaps_def supportsMipmaps_def)

subsection \<open>Unlocking an empty buffer\<close>

text \<open>
  Claim C10. \<^verbatim>\<open>unlock\<close> of an empty (null) locked buffer returns at once: no command is
  enqueued, no memory is touched and the texture keeps its level count and every other
  field, whatever the state and the write flags.
\<close>

theorem unlock_empty_noop:
  assumes "\<not> LockedTextureBuffer_bool lockBuff"
  shows "unlock r lockBuff writeFlags s = Inr s"
  using assms by (simp add: unlock_def)

theorem unlock_empty_noop_witness:
  "\<not> LockedTextureBuffer_bool emptyLockedTextureBuffer
   \<and> unlock sampleRenderer emptyLockedTextureBuffer 2 (formattedWorld 1 7 desc100x50)
       = Inr (formattedWorld 1 7 desc100x50)"
  using unlock_empty_noop[of emptyLockedTextureBuffer sampleRenderer 2 "formattedWorld 1 7 desc100x50"]
  by (simp add: LockedTextureBuffer_bool_def emptyLockedTextureBuffer_def)

subsection \<open>Operations on an unformatted texture\<close>

text \<open>
  Claim C7 says that \<^verbatim>\<open>generateMipmaps\<close>, \<^verbatim>\<open>write\<close>, \<^verbatim>\<open>lock\<close> and \<^verbatim>\<open>bind\<close> abort on a texture
  without a device handle. They do not: on the unformatted texture each returns normally.
\<close>

theorem unformatted_abort_counterexample:
  "generateMipmaps sampleRenderer unformattedWorld = (False, unformattedWorld)
   \<and> lock sampleRenderer (\<lambda>n. 4096) 0 sampleRect 0 unformattedWorld
       = Inr (emptyLockedTextureBuffer, unformattedWorld)
   \<and> texture_write sampleRenderer (\<lambda>n. 4096) 0 paddedPixmap (0, 0) 0 unformattedWorld
       = Inr unformattedWorld"
  by (simp add: generateMipmaps_def lock_def texture_write_def writeAligned_def unformattedWorld_def)

text \<open>
  Claim C7, amended. On a texture without a device handle each of \<^verbatim>\<open>generateMipmaps\<close>,
  \<^verbatim>\<open>write\<close> (and \<^verbatim>\<open>writeAligned\<close>), \<^verbatim>\<open>lock\<close> and \<^verbatim>\<open>bindTex\<close> returns without a fault and
  without effect: \<^verbatim>\<open>generateMipmaps\<close> returns false, \<^verbatim>\<open>lock\<close> returns the empty buffer, which
  converts to false, and nothing is enqueued or recorded.
\<close>

theorem unformatted_returns:
  assumes "texName (tex s) = 0"
  shows "generateMipmaps r s = (False, s)
         \<and> writeAligned r alloc level pixmap destPos assumeAlign writeFlags s = Inr s
         \<and> texture_write r alloc level pixmap destPos writeFlags s = Inr s
         \<and> lock r alloc level rect bufferFlags s = Inr (emptyLockedTextureBuffer, s)
         \<and> \<not> LockedTextureBuffer_bool emptyLockedTextureBuffer
         \<and> bindTex r (tex s) cmds = cmds"
  using assms
  by (simp add: generateMipmaps_def writeAligned_def texture_write_def lock_def bindTex_def
      LockedTextureBuffer_bool_def emptyLockedTextureBuffer_def)

theorem unformatted_returns_witness:
  "lock sampleRenderer (\<lambda>n. 4096) 0 sampleRect 0 unformattedWorld
       = Inr (emptyLockedTextureBuffer, unformattedWorld)
   \<and> bindTex sampleRenderer (tex unformattedWorld) [] = []"
  using unformatted_returns[of unformattedWorld sampleRenderer "\<lambda>n. 4096" 0 paddedPixmap "(0, 0)" 0 0
      sampleRect 0 "[]"]
  by (simp add: unformattedWorld_def)


subsection \<open>Level count after mipmap generation\<close>

lemma fls_100_50: "fls (word_of_int (100 OR 50)) = 7"
proof -
  have "(100::int) OR 50 = 118" by simp
  moreover have "fls_nat 118 = 7" by (simp add: fls_nat.simps)
  ultimately show ?thesis by (simp add: fls_def)
qed

text \<open>
  On a backend with immutable storage, formatting 100 by 50 with a level hint of 3 leaves a
  texture with 3 levels.
\<close>

lemma setFormat_hint3:
  "\<exists>s'. setFormat immutableRenderer 1 desc100x50 3 False None unformattedWorld = Inr s'
        \<and> tex s' = tex (formattedWorld 1 3 desc100x50)"
  by (simp add: setFormat_def setFormat_levels_def updateFormatInfo_def to_int8_def
      supportsMipmaps_def immutableRenderer_def sampleRenderer_def desc100x50_def
      unformattedWorld_def formattedWorld_def typeForPixelFormat_def rgba8888_def Let_def)

text \<open>
  Claim C5 says that a successful \<^verbatim>\<open>generateMipmaps\<close> always resets the level count to the
  full chain, whatever the backend. With immutable storage it does not: the call succeeds
  on that texture and the level count stays 3, while \<open>fls (100 OR 50)\<close> is 7.
\<close>

theorem generateMipmaps_immutable_counterexample:
  "fst (generateMipmaps immutableRenderer (formattedWorld 1 3 desc100x50))
   \<and> levels (tex (snd (generateMipmaps immutableRenderer (formattedWorld 1 3 desc100x50)))) = 3
   \<and> fls (word_of_int (desc_w desc100x50 OR desc_h desc100x50)) = 7"
  using fls_100_50
  by (simp add: generateMipmaps_def canUseMipmaps_def supportsMipmaps_def
      updateLevelsForMipmapGeneration_def immutableRenderer_def sampleRenderer_def
      formattedWorld_def desc100x50_def)

text \<open>
  Claim C5, amended. When \<^verbatim>\<open>generateMipmaps\<close> succeeds on a backend without immutable
  texture storage, the stored level count becomes \<open>floor(log2(max(w, h))) + 1\<close>, whatever
  it was before; with immutable storage the level count is left as it was.
\<close>

theorem generateMipmaps_level_count:
  assumes "fst (generateMipmaps r s)"
    and "0 \<le> desc_w (pixDesc (tex s))" and "desc_w (pixDesc (tex s)) < 2 ^ 31"
    and "0 \<le> desc_h (pixDesc (tex s))" and "desc_h (pixDesc (tex s)) < 2 ^ 31"
  shows "levels (tex (snd (generateMipmaps r s))) =
           (if hasImmutableTexStorage r then levels (tex s)
            else \<lfloor>log 2 (real_of_int (max (desc_w (pixDesc (tex s))) (desc_h (pixDesc (tex s)))))\<rfloor> + 1)"
proof -
  let ?w = "desc_w (pixDesc (tex s))" and ?h = "desc_h (pixDesc (tex s))"
  have ok: "texName (tex s) \<noteq> 0" "canUseMipmaps r (tex s)"
    using assms(1) by (auto simp: generateMipmaps_def split: if_splits)
  then have nz: "?w \<noteq> 0" "?h \<noteq> 0"
    by (simp_all add: canUseMipmaps_def supportsMipmaps_def)
  have pos: "1 \<le> ?w" "1 \<le> ?h" using nz assms(2,4) by simp_all
  let ?f = "fls (word_of_int (?w OR ?h))"
  have f: "?f = \<lfloor>log 2 (real_of_int (max ?w ?h))\<rfloor> + 1" "1 \<le> ?f" "?f \<le> 31"
    using fls_or_log2[OF pos(1) assms(3) pos(2) assms(5)] by simp_all
  have id: "to_int8 ?f = ?f" using f(2,3) by (intro to_int8_id) simp_all
  have "levels (tex (snd (generateMipmaps r s))) =
          (if hasImmutableTexStorage r then levels (tex s) else to_int8 ?f)"
    using ok by (simp add: generateMipmaps_def updateLevelsForMipmapGeneration_def)
  then show ?thesis using id f(1) by (simp only:)
qed

theorem generateMipmaps_level_count_witness:
  "fst (generateMipmaps sampleRenderer (formattedWorld 1 1 desc100x50))
   \<and> levels (tex (snd (generateMipmaps sampleRenderer (formattedWorld 1 1 desc100x50))))
       = \<lfloor>log 2 (real_of_int (max 100 50))\<rfloor> + 1"
proof -
  have ok: "fst (generateMipmaps sampleRenderer (formattedWorld 1 1 desc100x50))"
    by (simp add: generateMipmaps_def canUseMipmaps_def supportsMipmaps_def sampleRenderer_def
        formattedWorld_def desc100x50_def)
  show ?thesis
    using ok generateMipmaps_level_count[OF ok]
    by (simp add: sampleRenderer_def formattedWorld_def desc100x50_def)
qed

subsection \<open>Formatting without immutable storage\<close>

lemma texImage2DLoop_map:
  "texImage2DLoop itf fmt dt n i (w, h) =
     map (\<lambda>k. TexImage2D (i + int k) itf (fst (sizeLoop k (w, h))) (snd (sizeLoop k (w, h))) fmt dt)
       [0..<n]"
proof (induction n arbitrary: i w h)
  case 0
  then show ?case by simp
next
  case (Suc n)
  have "[0..<Suc n] = 0 # map Suc [0..<n]"
    by (simp add: upt_conv_Cons map_Suc_upt del: upt_Suc)
  then have "map (\<lambda>k. TexImage2D (i + int k) itf (fst (sizeLoop k (w, h))) (snd (sizeLoop k (w, h))) fmt dt)
        [0..<Suc n]
      = TexImage2D i itf w h fmt dt #
        map (\<lambda>k. TexImage2D (i + 1 + int k) itf
                 (fst (sizeLoop k (max 1 (w div 2), max 1 (h div 2))))
                 (snd (sizeLoop k (max 1 (w div 2), max 1 (h div 2)))) fmt dt) [0..<n]"
    by (simp add: comp_def add.assoc del: upt_Suc)
  then show ?case using Suc.IH[of "i + 1" "max 1 (w div 2)" "max 1 (h div 2)"]
    by (simp del: upt_Suc)
qed

lemma filter_texImage2DLoop:
  "filter isTexImage2D (texImage2DLoop itf fmt dt n i wh) = texImage2DLoop itf fmt dt n i wh"
  by (induction itf fmt dt n i wh rule: texImage2DLoop.induct) simp_all

lemma filter_swizzle: "filter isTexImage2D (setSwizzleForFormatInGL r f name) = []"
  by (simp add: setSwizzleForFormatInGL_def)

lemma filter_sampler: "filter isTexImage2D (setSamplerParamsInGL r p) = []"
  by (simp add: setSamplerParamsInGL_def)

lemma ex_make_loop: "\<not> list_ex isMakeGLTextureName (texImage2DLoop itf fmt dt n i wh)"
  by (induction itf fmt dt n i wh rule: texImage2DLoop.induct) simp_all

lemma ex_make_swizzle: "\<not> list_ex isMakeGLTextureName (setSwizzleForFormatInGL r f name)"
  by (simp add: setSwizzleForFormatInGL_def)

lemma ex_make_sampler: "\<not> list_ex isMakeGLTextureName (setSamplerParamsInGL r p)"
  by (simp add: setSamplerParamsInGL_def)

text \<open>The command of the mutable branch, as \<^verbatim>\<open>setFormat\<close> builds it.\<close>

lemma setFormat_mutable_result:
  assumes "\<not> hasImmutableTexStorage r" "desc_w desc \<noteq> 0" "desc_h desc \<noteq> 0"
    and "to_int8 (setFormat_levels r desc lvArg) \<noteq> 0"
  shows "\<exists>s' cmd. setFormat r newName desc lvArg isSrgb compatSampler s = Inr s'
      \<and> queue s' = queue s @ [cmd]
      \<and> pixDesc (tex s') = desc \<and> levels (tex s') \<noteq> 0
      \<and> texName (tex s') = (if setFormat_levels r desc lvArg \<noteq> levels (tex s)
                             then newName else texName (tex s))
      \<and> list_ex isMakeGLTextureName (calls cmd) = (setFormat_levels r desc lvArg \<noteq> levels (tex s))
      \<and> (case (makeGLFormat r (formatID (desc_format desc)),
                makeGLDataType r (formatID (desc_format desc)),
                makeGLInternalFormat r (formatID (desc_format desc)) False) of
            (Inr format, Inr dataType, Inr internalFormat) \<Rightarrow>
              stopped cmd = None
              \<and> filter isTexImage2D (calls cmd) =
                  texImage2DLoop internalFormat format dataType
                    (nat (setFormat_levels r desc lvArg)) 0 (desc_w desc, desc_h desc)
          | _ \<Rightarrow> stopped cmd \<noteq> None \<and> filter isTexImage2D (calls cmd) = [])"
  using assms
  by (cases "makeGLFormat r (formatID (desc_format desc))";
      cases "makeGLDataType r (formatID (desc_format desc))";
      cases "makeGLInternalFormat r (formatID (desc_format desc)) False")
     (simp_all add: setFormat_def updateFormatInfo_def Let_def andThen_def emit_def translated_def
        filter_texImage2DLoop filter_swizzle filter_sampler ex_make_loop ex_make_swizzle
        ex_make_sampler)

text \<open>
  Claim C8 says that the command of every such \<^verbatim>\<open>setFormat\<close> issues one allocation call per
  level. It does not when the format has no translation: on desktop OpenGL \<^verbatim>\<open>PIXEL_RGB888\<close>
  has no sized internal format, so for a 100 by 50 descriptor the texture is given 7 levels
  while the command makes the name, binds it and stops in \<^verbatim>\<open>bug_unreachable\<close> before any
  \<^verbatim>\<open>glTexImage2D\<close>.
\<close>

theorem setFormat_mutable_untranslated_counterexample:
  "setFormat desktopRenderer 1 desc100x50rgb 0 False None unformattedWorld =
     Inr ((formattedWorld 1 7 desc100x50rgb)
            \<lparr>queue := [\<lparr>calls = [MakeGLTextureName 0 1, NotifySemaphore, BindTexture GL_TEXTURE_2D 1],
                         stopped = Some Unreachable, awaitReply = True\<rparr>]\<rparr>)"
proof -
  have "(100::int) OR 50 = 118" by simp
  moreover have "fls_nat 118 = 7" by (simp add: fls_nat.simps)
  ultimately have l: "setFormat_levels desktopRenderer desc100x50rgb 0 = 7"
    by (simp add: setFormat_levels_def supportsMipmaps_def desktopRenderer_def sampleRenderer_def
        desc100x50rgb_def fls_def)
  show ?thesis
    unfolding setFormat_def l
    by (simp add: updateFormatInfo_def to_int8_def Let_def andThen_def emit_def translated_def
        makeGLFormat_def makeGLDataType_def makeGLInternalFormat_def makeGLSizedInternalFormat_def
        typeForPixelFormat_def desktopRenderer_def sampleRenderer_def desc100x50rgb_def rgb888_def
        unformattedWorld_def formattedWorld_def)
qed

text \<open>
  Claim C8, amended. Without immutable texture storage, a \<^verbatim>\<open>setFormat\<close> call that passes its
  checks submits one command; that command makes a new texture name exactly when the level
  count just computed differs from the one the texture holds. When \<^verbatim>\<open>makeGLFormat\<close>,
  \<^verbatim>\<open>makeGLDataType\<close> and \<^verbatim>\<open>makeGLInternalFormat\<close> translate the descriptor's format, the
  command runs to its end and issues one \<^verbatim>\<open>glTexImage2D\<close> call per level, the call for level
  \<open>i\<close> carrying the dimensions that \<^verbatim>\<open>size(i)\<close> reports afterwards (halved and floored level
  by level, never below 1); when one of them does not, the command stops before any
  allocation call.
\<close>

theorem setFormat_mutable_allocation:
  assumes "\<not> hasImmutableTexStorage r" and "desc_w desc \<noteq> 0" and "desc_h desc \<noteq> 0"
    and "to_int8 (setFormat_levels r desc lvArg) \<noteq> 0"
  shows "\<exists>s' cmd. setFormat r newName desc lvArg isSrgb compatSampler s = Inr s'
      \<and> queue s' = queue s @ [cmd]
      \<and> list_ex isMakeGLTextureName (calls cmd) = (setFormat_levels r desc lvArg \<noteq> levels (tex s))
      \<and> texName (tex s') = (if setFormat_levels r desc lvArg \<noteq> levels (tex s)
                             then newName else texName (tex s))
      \<and> (\<forall>format dataType internalFormat.
            makeGLFormat r (formatID (desc_format desc)) = Inr format
            \<and> makeGLDataType r (formatID (desc_format desc)) = Inr dataType
            \<and> makeGLInternalFormat r (formatID (desc_format desc)) False = Inr internalFormat \<longrightarrow>
            stopped cmd = None
            \<and> length (filter isTexImage2D (calls cmd)) = nat (setFormat_levels r desc lvArg)
            \<and> (\<forall>i < nat (setFormat_levels r desc lvArg).
                  \<exists>x y. size_level (tex s') (int i) = Inr (x, y)
                        \<and> filter isTexImage2D (calls cmd) ! i
                            = TexImage2D (int i) internalFormat x y format dataType))
      \<and> (isl (makeGLFormat r (formatID (desc_format desc)))
          \<or> isl (makeGLDataType r (formatID (desc_format desc)))
          \<or> isl (makeGLInternalFormat r (formatID (desc_format desc)) False) \<longrightarrow>
            stopped cmd \<noteq> None \<and> filter isTexImage2D (calls cmd) = [])"
proof -
  let ?lv = "setFormat_levels r desc lvArg"
  let ?f = "formatID (desc_format desc)"
  obtain s' cmd where r: "setFormat r newName desc lvArg isSrgb compatSampler s = Inr s'"
      "queue s' = queue s @ [cmd]" "pixDesc (tex s') = desc" "levels (tex s') \<noteq> 0"
      "texName (tex s') = (if ?lv \<noteq> levels (tex s) then newName else texName (tex s))"
      "list_ex isMakeGLTextureName (calls cmd) = (?lv \<noteq> levels (tex s))"
      and c: "case (makeGLFormat r ?f, makeGLDataType r ?f, makeGLInternalFormat r ?f False) of
            (Inr format, Inr dataType, Inr internalFormat) \<Rightarrow>
              stopped cmd = None
              \<and> filter isTexImage2D (calls cmd) =
                  texImage2DLoop internalFormat format dataType (nat ?lv) 0 (desc_w desc, desc_h desc)
          | _ \<Rightarrow> stopped cmd \<noteq> None \<and> filter isTexImage2D (calls cmd) = []"
    using setFormat_mutable_result[OF assms, of newName isSrgb compatSampler s] by blast
  have ok: "stopped cmd = None
            \<and> length (filter isTexImage2D (calls cmd)) = nat ?lv
            \<and> (\<forall>i < nat ?lv.
                  \<exists>x y. size_level (tex s') (int i) = Inr (x, y)
                        \<and> filter isTexImage2D (calls cmd) ! i
                            = TexImage2D (int i) internalFormat x y format dataType)"
    if t: "makeGLFormat r ?f = Inr format \<and> makeGLDataType r ?f = Inr dataType
        \<and> makeGLInternalFormat r ?f False = Inr internalFormat"
    for format dataType internalFormat
  proof -
    let ?g = "\<lambda>k. TexImage2D (0 + int k) internalFormat
               (fst (sizeLoop k (desc_w desc, desc_h desc)))
               (snd (sizeLoop k (desc_w desc, desc_h desc))) format dataType"
    have st: "stopped cmd = None" and
      fl: "filter isTexImage2D (calls cmd) =
             texImage2DLoop internalFormat format dataType (nat ?lv) 0 (desc_w desc, desc_h desc)"
      using c t by simp_all
    have m: "filter isTexImage2D (calls cmd) = map ?g [0..<nat ?lv]"
      using fl texImage2DLoop_map[of internalFormat format dataType "nat ?lv" 0 "desc_w desc" "desc_h desc"]
      by (simp only:)
    have len: "length (filter isTexImage2D (calls cmd)) = nat ?lv"
      unfolding m by simp
    have nth: "\<exists>x y. size_level (tex s') (int i) = Inr (x, y)
                  \<and> filter isTexImage2D (calls cmd) ! i
                      = TexImage2D (int i) internalFormat x y format dataType"
      if "i < nat ?lv" for i
    proof -
      have "filter isTexImage2D (calls cmd) ! i = ?g i"
        unfolding m using that by simp
      moreover have "size_level (tex s') (int i) = Inr (sizeLoop i (desc_w desc, desc_h desc))"
        using r(3,4) by (simp add: size_level_def)
      ultimately show ?thesis
        by (metis add_0 prod.collapse)
    qed
    show ?thesis using st len nth by blast
  qed
  have bad: "stopped cmd \<noteq> None \<and> filter isTexImage2D (calls cmd) = []"
    if "isl (makeGLFormat r ?f) \<or> isl (makeGLDataType r ?f) \<or> isl (makeGLInternalFormat r ?f False)"
    using c that by (auto simp: isl_def split: sum.splits)
  show ?thesis using r(1,2,5,6) ok bad by blast
qed

lemma sample_levels: "setFormat_levels sampleRenderer desc100x50 0 = 7"
  using fls_100_50
  by (simp add: setFormat_levels_def supportsMipmaps_def sampleRenderer_def desc100x50_def)

lemma sample_translation:
  "makeGLFormat sampleRenderer (formatID (desc_format desc100x50)) = Inr GL_RGBA"
  "makeGLDataType sampleRenderer (formatID (desc_format desc100x50)) = Inr GL_UNSIGNED_BYTE"
  "makeGLInternalFormat sampleRenderer (formatID (desc_format desc100x50)) False = Inr GL_RGBA"
  by (simp_all add: makeGLFormat_def makeGLDataType_def makeGLInternalFormat_def
      makeGLESInternalFormat_def sampleRenderer_def desc100x50_def rgba8888_def)

theorem setFormat_mutable_allocation_witness:
  "\<exists>s' cmd. setFormat sampleRenderer 1 desc100x50 0 False None unformattedWorld = Inr s'
      \<and> queue s' = queue unformattedWorld @ [cmd]
      \<and> list_ex isMakeGLTextureName (calls cmd)
      \<and> texName (tex s') = 1
      \<and> stopped cmd = None
      \<and> length (filter isTexImage2D (calls cmd)) = 7
      \<and> (\<exists>x y. size_level (tex s') 6 = Inr (x, y)
              \<and> filter isTexImage2D (calls cmd) ! 6 = TexImage2D 6 GL_RGBA x y GL_RGBA GL_UNSIGNED_BYTE)"
proof -
  let ?lv = "setFormat_levels sampleRenderer desc100x50 0"
  let ?f = "formatID (desc_format desc100x50)"
  have h: "\<not> hasImmutableTexStorage sampleRenderer" "desc_w desc100x50 \<noteq> 0"
    "desc_h desc100x50 \<noteq> 0" "to_int8 ?lv \<noteq> 0"
    by (simp_all add: sample_levels to_int8_def, simp_all add: sampleRenderer_def desc100x50_def)
  have l0: "levels (tex unformattedWorld) = 0" by (simp add: unformattedWorld_def)
  obtain s' cmd where r:
    "setFormat sampleRenderer 1 desc100x50 0 False None unformattedWorld = Inr s'"
    "queue s' = queue unformattedWorld @ [cmd]"
    "list_ex isMakeGLTextureName (calls cmd) = (?lv \<noteq> levels (tex unformattedWorld))"
    "texName (tex s') = (if ?lv \<noteq> levels (tex unformattedWorld)
                             then 1 else texName (tex unformattedWorld))"
    and t: "\<forall>format dataType internalFormat.
            makeGLFormat sampleRenderer ?f = Inr format
            \<and> makeGLDataType sampleRenderer ?f = Inr dataType
            \<and> makeGLInternalFormat sampleRenderer ?f False = Inr internalFormat \<longrightarrow>
            stopped cmd = None
            \<and> length (filter isTexImage2D (calls cmd)) = nat ?lv
            \<and> (\<forall>i < nat ?lv.
                  \<exists>x y. size_level (tex s') (int i) = Inr (x, y)
                        \<and> filter isTexImage2D (calls cmd) ! i
                            = TexImage2D (int i) internalFormat x y format dataType)"
    using setFormat_mutable_allocation[OF h, of 1 False None unformattedWorld] by blast
  from t sample_translation
  have u: "stopped cmd = None" "length (filter isTexImage2D (calls cmd)) = nat ?lv"
    "\<forall>i < nat ?lv.
        \<exists>x y. size_level (tex s') (int i) = Inr (x, y)
              \<and> filter isTexImage2D (calls cmd) ! i
                  = TexImage2D (int i) GL_RGBA x y GL_RGBA GL_UNSIGNED_BYTE"
    by blast+
  have "(6::nat) < nat ?lv" by (simp add: sample_levels)
  with u(3) have "\<exists>x y. size_level (tex s') (int 6) = Inr (x, y)
                  \<and> filter isTexImage2D (calls cmd) ! 6
                      = TexImage2D (int 6) GL_RGBA x y GL_RGBA GL_UNSIGNED_BYTE"
    by blast
  then have six: "\<exists>x y. size_level (tex s') 6 = Inr (x, y)
              \<and> filter isTexImage2D (calls cmd) ! 6 = TexImage2D 6 GL_RGBA x y GL_RGBA GL_UNSIGNED_BYTE"
    by simp
  show ?thesis
    using r(1) r(2) r(3) r(4) u(1) u(2) six by (simp add: sample_levels l0)
qed


subsection \<open>Locking\<close>

lemma fillBytes_inside: "i < n \<Longrightarrow> fillBytes m a n v (a + i) = v"
  by (simp add: fillBytes_def)

lemma fillBytes_outside: "i < a \<or> a + n \<le> i \<Longrightarrow> fillBytes m a n v i = m i"
  by (auto simp: fillBytes_def)

lemma to_int32_id: "0 \<le> i \<Longrightarrow> i < 2 ^ 31 \<Longrightarrow> to_int32 i = i"
  by (simp add: to_int32_def sint_sbintrunc' signed_take_bit_int_eq_self)

lemma to_int32_wraps: "to_int32 (65536 * 65536) = 0"
  by (simp add: to_int32_def)

text \<open>
  Claim C6 says that \<^verbatim>\<open>lock\<close> allocates width times height times bytes per pixel bytes for
  every in-bounds rectangle. The pixel count is an \<^verbatim>\<open>int\<close> product: for the full rectangle of
  a 65536 by 65536 RGBA8888 texture it wraps to 0, so \<^verbatim>\<open>lock\<close> asks for 0 bytes. With an
  allocator that serves only that request, \<^verbatim>\<open>lock\<close> returns a buffer whose view spans
  \<open>2^34\<close> bytes, and with the clear flag set its first byte is not 0.
\<close>

theorem lock_overflow_counterexample:
  "lock sampleRenderer allocOnlyEmpty 0 hugeRect 1 (formattedWorld 1 1 hugeDesc)
     = Inr (hugeBuffer,
            (formattedWorld 1 1 hugeDesc)
              \<lparr>mem := fillBytes (mem (formattedWorld 1 1 hugeDesc)) 4096 0 (Some 0)\<rparr>)
   \<and> xSize hugeRect * ySize hugeRect * bytesPerPixel (desc_format hugeDesc) = 17179869184
   \<and> pix_bytes (pix hugeBuffer) = 17179869184
   \<and> allocOnlyEmpty 17179869184 = 0
   \<and> fillBytes (mem (formattedWorld 1 1 hugeDesc)) 4096 0 (Some 0) 4096 = None"
proof -
  have x: "xSize hugeRect = 65536" "ySize hugeRect = 65536"
    by (simp_all add: xSize_def ySize_def hugeRect_def)
  have l: "lock sampleRenderer allocOnlyEmpty 0 hugeRect 1 (formattedWorld 1 1 hugeDesc)
     = Inr (hugeBuffer,
            (formattedWorld 1 1 hugeDesc)
              \<lparr>mem := fillBytes (mem (formattedWorld 1 1 hugeDesc)) 4096 0 (Some 0)\<rparr>)"
    unfolding lock_def x to_int32_wraps
    by (simp add: size_level_def pixelBytes_def to_uintptr_def allocOnlyEmpty_def hugeBuffer_def
        Let_def formattedWorld_def hugeDesc_def hugeRect_def rgba8888_def sampleRenderer_def)
  have "xSize hugeRect * ySize hugeRect * bytesPerPixel (desc_format hugeDesc) = 17179869184"
    unfolding x by (simp add: hugeDesc_def rgba8888_def)
  moreover have "pix_bytes (pix hugeBuffer) = 17179869184"
    by (simp add: pix_bytes_def pix_h_def hugeBuffer_def hugeDesc_def)
  moreover have "allocOnlyEmpty 17179869184 = 0" by (simp add: allocOnlyEmpty_def)
  moreover have "fillBytes (mem (formattedWorld 1 1 hugeDesc)) 4096 0 (Some 0) 4096 = None"
    by (simp add: fillBytes_def formattedWorld_def)
  ultimately show ?thesis using l by simp
qed

text \<open>
  Claim C6, amended. On a formatted texture, for a rectangle within \<^verbatim>\<open>size(level)\<close> whose
  pixel count and byte extent fit an \<^verbatim>\<open>int\<close>, \<^verbatim>\<open>lock\<close> asks the host allocator for exactly
  width times height times bytes per pixel bytes. If the allocator returns null, \<^verbatim>\<open>lock\<close>
  returns the empty buffer, which converts to false, and changes nothing; this is the only
  case in which the result converts to false, and \<^verbatim>\<open>lock\<close> does not fault. Otherwise the
  buffer is an unpadded view of that many bytes at the allocated address, and with the
  clear flag set all of its bytes are 0.
\<close>

theorem lock_allocates:
  assumes "texName (tex s) \<noteq> 0" and "size_level (tex s) level = Inr (sx, sy)"
    and "0 \<le> rect_x rect" and "rect_x rect \<le> rect_x2 rect" and "rect_x2 rect \<le> sx"
    and "0 \<le> rect_y rect" and "rect_y rect \<le> rect_y2 rect" and "rect_y2 rect \<le> sy"
    and "0 \<le> bytesPerPixel (desc_format (pixDesc (tex s)))"
    and "xSize rect * ySize rect < 2 ^ 31"
    and "xSize rect * ySize rect * bytesPerPixel (desc_format (pixDesc (tex s))) < 2 ^ 31"
  shows "\<exists>lockBuff s'.
      lock r alloc level rect bufferFlags s = Inr (lockBuff, s')
      \<and> LockedTextureBuffer_bool lockBuff
          = (alloc (nat (xSize rect * ySize rect * bytesPerPixel (desc_format (pixDesc (tex s))))) \<noteq> 0)
      \<and> (\<not> LockedTextureBuffer_bool lockBuff \<longrightarrow> lockBuff = emptyLockedTextureBuffer \<and> s' = s)
      \<and> (LockedTextureBuffer_bool lockBuff \<longrightarrow>
            bufferOffset lockBuff
              = alloc (nat (xSize rect * ySize rect * bytesPerPixel (desc_format (pixDesc (tex s)))))
            \<and> pix_data (pix lockBuff) = bufferOffset lockBuff
            \<and> pix_w (pix lockBuff) = xSize rect \<and> pix_h (pix lockBuff) = ySize rect
            \<and> pix_format (pix lockBuff) = desc_format (pixDesc (tex s))
            \<and> \<not> isPadded (pix lockBuff)
            \<and> pix_bytes (pix lockBuff)
                = xSize rect * ySize rect * bytesPerPixel (desc_format (pixDesc (tex s)))
            \<and> srcDirtyRect lockBuff = rect \<and> lockedLevel lockBuff = level
            \<and> shouldFreeBuffer lockBuff \<and> pbo lockBuff = 0
            \<and> tex s' = tex s \<and> queue s' = queue s
            \<and> (bufferFlags AND BUFFER_FLAG_CLEARED r \<noteq> 0 \<longrightarrow>
                  (\<forall>i < nat (xSize rect * ySize rect * bytesPerPixel (desc_format (pixDesc (tex s)))).
                     mem s' (bufferOffset lockBuff + i) = Some 0)))"
proof -
  let ?f = "desc_format (pixDesc (tex s))"
  let ?N = "xSize rect * ySize rect * bytesPerPixel ?f"
  let ?a = "alloc (nat ?N)"
  have xs: "0 \<le> xSize rect" and ys: "0 \<le> ySize rect"
    using assms(4,7) by (simp_all add: xSize_def ySize_def)
  have p0: "0 \<le> xSize rect * ySize rect" using xs ys by simp
  have wrap: "to_int32 (xSize rect * ySize rect) = xSize rect * ySize rect"
    using p0 assms(10) by (rule to_int32_id)
  have N0: "0 \<le> ?N" using p0 assms(9) by simp
  have "?N < 2 ^ 64" using assms(11) by simp
  then have conv: "to_uintptr (pixelBytes ?f (to_int32 (xSize rect * ySize rect))) = nat ?N"
    using N0 unfolding wrap by (simp add: to_uintptr_def pixelBytes_def)
  have pitch: "int (nat (xSize rect * bytesPerPixel ?f)) = xSize rect * bytesPerPixel ?f"
    using xs assms(9) by simp
  show ?thesis
  proof (cases "?a = 0")
    case True
    then have "lock r alloc level rect bufferFlags s = Inr (emptyLockedTextureBuffer, s)"
      using assms(1,2,5,8) conv by (simp add: lock_def Let_def)
    moreover have "\<not> LockedTextureBuffer_bool emptyLockedTextureBuffer"
      by (simp add: LockedTextureBuffer_bool_def emptyLockedTextureBuffer_def)
    ultimately show ?thesis using True by simp
  next
    case False
    let ?lb = "\<lparr>bufferOffset = ?a,
                   pix = \<lparr>pix_desc = \<lparr>desc_w = xSize rect, desc_h = ySize rect, desc_format = ?f\<rparr>,
                          pix_data = ?a,
                          pix_pitchBytes = nat (xSize rect * bytesPerPixel ?f)\<rparr>,
                   srcDirtyRect = rect, lockedLevel = level, shouldFreeBuffer = True, pbo = 0\<rparr>"
    let ?s' = "s\<lparr>mem := fillBytes (mem s) ?a (nat ?N)
                              (if bufferFlags AND BUFFER_FLAG_CLEARED r \<noteq> 0 then Some 0 else None)\<rparr>"
    have l: "lock r alloc level rect bufferFlags s = Inr (?lb, ?s')"
      using assms(1,2,5,8) conv False by (simp add: lock_def Let_def)
    have b: "LockedTextureBuffer_bool ?lb"
      using False by (simp add: LockedTextureBuffer_bool_def)
    have np: "\<not> isPadded (pix ?lb)"
      using pitch by (simp add: isPadded_def pix_w_def pix_format_def)
    have bytes: "pix_bytes (pix ?lb) = ?N"
      using pitch by (simp add: pix_bytes_def pix_h_def pix_format_def mult.commute mult.left_commute)
    have z: "\<forall>i < nat ?N. mem ?s' (bufferOffset ?lb + i) = Some 0"
      if "bufferFlags AND BUFFER_FLAG_CLEARED r \<noteq> 0"
      using that by (simp add: fillBytes_inside)
    show ?thesis
      apply (rule exI[of _ ?lb], rule exI[of _ ?s'])
      using l b np bytes z False
      by (simp add: pix_w_def pix_h_def pix_format_def)
  qed
qed

theorem lock_allocates_witness:
  "(\<exists>lockBuff s'.
      lock sampleRenderer (\<lambda>n. 4096) 0 sampleRect 1 (formattedWorld 1 7 desc100x50) = Inr (lockBuff, s')
      \<and> LockedTextureBuffer_bool lockBuff \<and> bufferOffset lockBuff = 4096
      \<and> pix_bytes (pix lockBuff) = 32
      \<and> (\<forall>i < 32. mem s' (4096 + i) = Some 0))
   \<and> lock sampleRenderer (\<lambda>n. 0) 0 sampleRect 1 (formattedWorld 1 7 desc100x50)
       = Inr (emptyLockedTextureBuffer, formattedWorld 1 7 desc100x50)"
proof -
  let ?W = "formattedWorld 1 7 desc100x50"
  have h: "texName (tex ?W) \<noteq> 0" "size_level (tex ?W) 0 = Inr (100, 50)"
    "0 \<le> rect_x sampleRect" "rect_x sampleRect \<le> rect_x2 sampleRect" "rect_x2 sampleRect \<le> 100"
    "0 \<le> rect_y sampleRect" "rect_y sampleRect \<le> rect_y2 sampleRect" "rect_y2 sampleRect \<le> 50"
    "0 \<le> bytesPerPixel (desc_format (pixDesc (tex ?W)))"
    "xSize sampleRect * ySize sampleRect < 2 ^ 31"
    "xSize sampleRect * ySize sampleRect * bytesPerPixel (desc_format (pixDesc (tex ?W))) < 2 ^ 31"
    by (simp_all add: formattedWorld_def desc100x50_def rgba8888_def sampleRect_def
        size_level_def xSize_def ySize_def)
  have N: "xSize sampleRect * ySize sampleRect * bytesPerPixel (desc_format (pixDesc (tex ?W))) = 32"
    by (simp add: formattedWorld_def desc100x50_def rgba8888_def sampleRect_def xSize_def ySize_def)
  have fl: "(1::32 word) AND BUFFER_FLAG_CLEARED sampleRenderer \<noteq> 0"
    by (simp add: sampleRenderer_def)
  have a: "\<exists>lockBuff s'.
      lock sampleRenderer (\<lambda>n. 4096) 0 sampleRect 1 ?W = Inr (lockBuff, s')
      \<and> LockedTextureBuffer_bool lockBuff \<and> bufferOffset lockBuff = 4096
      \<and> pix_bytes (pix lockBuff) = 32
      \<and> (\<forall>i < 32. mem s' (4096 + i) = Some 0)"
    using lock_allocates[OF h, of sampleRenderer "\<lambda>n. 4096" 1, unfolded N] fl
    by auto
  have b: "lock sampleRenderer (\<lambda>n. 0) 0 sampleRect 1 ?W = Inr (emptyLockedTextureBuffer, ?W)"
    using lock_allocates[OF h, of sampleRenderer "\<lambda>n. 0" 1, unfolded N]
    by auto
  show ?thesis using a b by (rule conjI)
qed


subsection \<open>Direct and staged writes\<close>













end
